theory Spec2Isabelle
  imports Complex_Main "HOL-Library.Word"
begin

unbundle bit_operations_syntax

section \<open>Data model\<close>

text \<open>
  The motion-control and realtime-protocol core of the firmware (\<^verbatim>\<open>motion_control.c\<close> and
  the protocol part that follows it in the same source file).

  Single precision numbers are a type variable \<open>'f\<close>: arithmetic and comparison are the
  syntactic operations of the classes \<open>plus\<close>, \<open>minus\<close>, \<open>times\<close>, \<open>uminus\<close>,
  \<open>inverse\<close>, \<open>zero\<close> and \<open>ord\<close>, which carry no axioms, so nothing proved below
  depends on how a target rounds. The library functions and conversions come with the
  record \<open>fpu\<close> further down.
\<close>

datatype sys_state =
    STATE_IDLE | STATE_ALARM | STATE_CHECK_MODE | STATE_HOMING | STATE_CYCLE | STATE_HOLD
  | STATE_JOG | STATE_SAFETY_DOOR | STATE_SLEEP | STATE_ESTOP | STATE_TOOL_CHANGE

datatype exec_flag =
    EXEC_STATUS_REPORT | EXEC_CYCLE_START | EXEC_CYCLE_COMPLETE | EXEC_FEED_HOLD | EXEC_STOP
  | EXEC_RESET | EXEC_SAFETY_DOOR | EXEC_MOTION_CANCEL | EXEC_GCODE_REPORT | EXEC_PID_REPORT

datatype alarm_code =
    Alarm_HardLimit | Alarm_SoftLimit | Alarm_AbortCycle | Alarm_ProbeFailInitial
  | Alarm_ProbeFailContact | Alarm_HomingFailReset | Alarm_EStop

datatype status_code = Status_OK | Status_Unhandled | Status_LimitsEngaged

text \<open>
  \<^verbatim>\<open>plan_line_data_t\<close>, with the members the source file reads or writes.
  \<^verbatim>\<open>memset(&pl_backlash, 0, ...)\<close> gives \<open>pl_zero\<close>.
\<close>

record 'f plan_line_data =
  feed_rate :: 'f
  spindle_rpm :: 'f
  line_number :: int
  rapid_motion :: bool
  backlash_motion :: bool
  jog_motion :: bool
  inverse_time :: bool
  no_feed_override :: bool
  spindle_on :: bool
  spindle_ccw :: bool
  spindle_synchronized :: bool
  feed_hold_disable :: bool

definition pl_zero :: "'f::zero plan_line_data" where
  "pl_zero = \<lparr>feed_rate = 0, spindle_rpm = 0, line_number = 0, rapid_motion = False,
     backlash_motion = False, jog_motion = False, inverse_time = False,
     no_feed_override = False, spindle_on = False, spindle_ccw = False,
     spindle_synchronized = False, feed_hold_disable = False\<rparr>"

record 'f settings_t =
  backlash :: "'f list"
  soft_enabled :: bool
  hard_enabled :: bool
  check_at_init :: bool
  two_switches :: bool
  laser_mode :: bool
  legacy_rt_commands :: bool
  arc_tolerance :: 'f
  homing_cycle :: "8 word list"

record step_control_t =
  execute_hold :: bool
  execute_sys_motion :: bool
  end_motion :: bool

text \<open>
  What the code under study asks of its collaborators, in the order it asks. The list is a
  history variable: the collaborators cannot rewrite it.
\<close>

datatype 'f event =
    PlanLine "'f list" "'f plan_line_data"
  | McLine "'f list" "'f plan_line_data"
  | GoHome "8 word"
  | Dwell 'f

text \<open>
  The process-wide state: \<^verbatim>\<open>sys\<close>, the realtime event register
  (\<^verbatim>\<open>sys_rt_exec_state\<close>, \<^verbatim>\<open>sys_rt_exec_alarm\<close>), the file-static variables
  of both parts of the source, \<^verbatim>\<open>settings\<close>, and the state \<open>ext\<close> owned by the planner,
  the stepper driver and the HAL.

  The event register is a bit set; the bit constants are declared in a header that is not
  part of the source file, so the register is the set of the flags that are raised. The
  pending alarm is kept as the list of the codes posted since it was last cleared, newest
  last: the word is non-zero exactly when the list is non-empty.
\<close>

record ('f, 'x) world =
  sys_state :: sys_state
  sys_abort :: bool
  sys_cancel :: bool
  sys_exit :: bool
  optional_stop_disable :: bool
  step_control :: step_control_t
  homed_mask :: "8 word"
  sys_report :: "16 word"
  sys_rt_exec_state :: "exec_flag set"
  sys_rt_exec_alarm :: "alarm_code list"
  gc_tool_change :: bool
  char_counter :: nat
  keep_rt_commands :: bool
  target_prev :: "'f list"
  dir_negative :: "8 word"
  backlash_enabled :: "8 word"
  settings :: "'f settings_t"
  ext :: 'x
  trace :: "'f event list"

datatype 'f hal_fn =
    Spindle_set_state bool bool 'f
  | Spindle_off
  | Coolant_off
  | Driver_reset
  | Suspend_read bool
  | Cancel_read_buffer
  | Limits_enable bool bool
  | Gc_sync_position
  | Plan_sync_position
  | Enqueue_feed_override "8 word"
  | Enqueue_accessory_override "8 word"

datatype st_fn = St_go_idle | St_parking_setup_buffer | St_prep_buffer | St_wake_up

text \<open>
  The collaborators, which the source file calls and does not define. Planner and HAL calls
  act on \<open>ext\<close>; stepper calls act on \<open>ext\<close> and on \<^verbatim>\<open>sys.step_control\<close>; the calls that
  re-enter the protocol layer (\<open>exec_rt\<close>, the soft limit check, the homing of one axis
  group, the delay) may change the whole state. All of them are assumed to return.
  \<open>exec_rt\<close> stands for the body of \<^verbatim>\<open>protocol_execute_realtime\<close> before its
  \<^verbatim>\<open>return !ABORTED\<close>: the state machine, the driver hook and the suspend loop.
  The compile-time constants \<^verbatim>\<open>N_AXIS\<close>, \<^verbatim>\<open>X_AXIS\<close>, \<^verbatim>\<open>Z_AXIS\<close> and
  \<^verbatim>\<open>N_ARC_CORRECTION\<close>, the driver's capabilities, whether \<^verbatim>\<open>KINEMATICS_API\<close> is
  defined, whether the compiler's \<^verbatim>\<open>char\<close> is signed, and the bit of \<^verbatim>\<open>homed\<close> in
  \<^verbatim>\<open>sys.report\<close> are carried along.
\<close>

record ('f, 'x) env =
  N_AXIS :: nat
  X_AXIS :: nat
  Z_AXIS :: nat
  N_ARC_CORRECTION :: nat
  plan_check_full_buffer :: "'x \<Rightarrow> bool"
  plan_get_current_block :: "'x \<Rightarrow> bool"
  plan_buffer_line :: "'f list \<Rightarrow> 'f plan_line_data \<Rightarrow> 'x \<Rightarrow> bool \<times> 'x"
  hal_call :: "'f hal_fn \<Rightarrow> 'x \<Rightarrow> 'x"
  st_call :: "st_fn \<Rightarrow> step_control_t \<times> 'x \<Rightarrow> step_control_t \<times> 'x"
  limits_get_state :: "'x \<Rightarrow> 8 word"
  control_e_stop :: "'x \<Rightarrow> bool"
  exec_rt :: "('f, 'x) world \<Rightarrow> ('f, 'x) world"
  limits_soft_check :: "'f list \<Rightarrow> ('f, 'x) world \<Rightarrow> ('f, 'x) world"
  limits_go_home :: "8 word \<Rightarrow> ('f, 'x) world \<Rightarrow> bool \<times> ('f, 'x) world"
  delay_sec :: "'f \<Rightarrow> ('f, 'x) world \<Rightarrow> ('f, 'x) world"
  has_driver_reset :: bool
  has_suspend_read :: bool
  cap_safety_door :: bool
  cap_program_stop :: bool
  kinematics_api :: bool
  char_is_signed :: bool
  report_homed :: "16 word"

text \<open>
  A call either returns a value or is still inside one of its busy-wait loops when the
  bound on the loop's iterations (\<open>fuel\<close>) is used up.
\<close>

datatype 'a outcome = Returns 'a | Hangs

section \<open>Helpers of the protocol layer\<close>

definition log_event :: "'f event \<Rightarrow> ('f, 'x) world \<Rightarrow> ('f, 'x) world" where
  "log_event e w = w\<lparr>trace := trace w @ [e]\<rparr>"

definition framed :: "(('f, 'x) world \<Rightarrow> ('f, 'x) world) \<Rightarrow> ('f, 'x) world \<Rightarrow> ('f, 'x) world" where
  "framed f w = (f w)\<lparr>trace := trace w\<rparr>"

definition do_hal :: "('f, 'x) env \<Rightarrow> 'f hal_fn \<Rightarrow> ('f, 'x) world \<Rightarrow> ('f, 'x) world" where
  "do_hal E c w = w\<lparr>ext := hal_call E c (ext w)\<rparr>"

definition do_st :: "('f, 'x) env \<Rightarrow> st_fn \<Rightarrow> ('f, 'x) world \<Rightarrow> ('f, 'x) world" where
  "do_st E c w =
     (case st_call E c (step_control w, ext w) of (sc, x) \<Rightarrow> w\<lparr>step_control := sc, ext := x\<rparr>)"

text \<open>
  Modelled from the spec: the macro \<^verbatim>\<open>ABORTED\<close> is declared in a header that is not part
  of the source file. The spec reads it as "aborted" over the sticky flags abort and cancel;
  the main loop of the source tells the two apart
  (\<^verbatim>\<open>!protocol_execute_realtime() && sys.abort\<close>).
\<close>

definition ABORTED :: "('f, 'x) world \<Rightarrow> bool" where
  "ABORTED w = (sys_abort w \<or> sys_cancel w)"

text \<open>
  Modelled from the spec: \<^verbatim>\<open>system_set_exec_state_flag\<close> and
  \<^verbatim>\<open>system_set_exec_alarm\<close> are macros of a header that is not part of the source file;
  by the spec writers OR a flag into the register, and post an alarm code.
\<close>

definition system_set_exec_state_flag :: "exec_flag \<Rightarrow> ('f, 'x) world \<Rightarrow> ('f, 'x) world" where
  "system_set_exec_state_flag f w = w\<lparr>sys_rt_exec_state := insert f (sys_rt_exec_state w)\<rparr>"

definition system_set_exec_alarm :: "alarm_code \<Rightarrow> ('f, 'x) world \<Rightarrow> ('f, 'x) world" where
  "system_set_exec_alarm a w = w\<lparr>sys_rt_exec_alarm := sys_rt_exec_alarm w @ [a]\<rparr>"

definition protocol_auto_cycle_start :: "('f, 'x) env \<Rightarrow> ('f, 'x) world \<Rightarrow> ('f, 'x) world" where
  "protocol_auto_cycle_start E w =
     (if plan_get_current_block E (ext w) then system_set_exec_state_flag EXEC_CYCLE_START w
      else w)"

definition protocol_execute_realtime ::
  "('f, 'x) env \<Rightarrow> ('f, 'x) world \<Rightarrow> bool \<times> ('f, 'x) world" where
  "protocol_execute_realtime E w = (let w' = framed (exec_rt E) w in (\<not> ABORTED w', w'))"

section \<open>The motion gateway\<close>

text \<open>
  The loop \<^verbatim>\<open>while(plan_check_full_buffer()) { ... }\<close>, which \<^verbatim>\<open>mc_line\<close> runs
  before each push. \<open>Returns True\<close>: the buffer has room; \<open>Returns False\<close>: the
  \<^verbatim>\<open>return false\<close> on abort.
\<close>

fun plan_wait :: "('f, 'x) env \<Rightarrow> nat \<Rightarrow> ('f, 'x) world \<Rightarrow> bool outcome \<times> ('f, 'x) world" where
  "plan_wait E 0 w =
     (if plan_check_full_buffer E (ext w) then (Hangs, w) else (Returns True, w))"
| "plan_wait E (Suc n) w =
     (if plan_check_full_buffer E (ext w) then
        (case protocol_execute_realtime E (protocol_auto_cycle_start E w) of
           (ok, w') \<Rightarrow> if \<not> ok then (Returns False, w') else plan_wait E n w')
      else (Returns True, w))"

definition plan_push ::
  "('f, 'x) env \<Rightarrow> 'f list \<Rightarrow> 'f plan_line_data \<Rightarrow> ('f, 'x) world \<Rightarrow> bool \<times> ('f, 'x) world" where
  "plan_push E target pl w =
     (case plan_buffer_line E target pl (ext w) of
        (accepted, x) \<Rightarrow> (accepted, (log_event (PlanLine target pl) w)\<lparr>ext := x\<rparr>))"

text \<open>One round of the \<^verbatim>\<open>do { idx--; ... axismask >>= 1; } while(idx)\<close> loop over the axes.\<close>

definition backlash_axis ::
  "'f::{ord,plus,minus} list \<Rightarrow> nat \<Rightarrow> 8 word \<Rightarrow> bool \<times> ('f, 'x) world \<Rightarrow> bool \<times> ('f, 'x) world" where
  "backlash_axis target idx axismask cw =
     (case cw of (backlash_comp, w) \<Rightarrow>
        if backlash_enabled w AND axismask \<noteq> 0 then
          if target ! idx > target_prev w ! idx then
            if dir_negative w AND axismask \<noteq> 0 then
              (True, w\<lparr>dir_negative := dir_negative w AND NOT axismask,
                       target_prev := (target_prev w)
                         [idx := target_prev w ! idx + backlash (settings w) ! idx]\<rparr>)
            else (backlash_comp, w)
          else if target ! idx < target_prev w ! idx \<and> \<not> (dir_negative w AND axismask \<noteq> 0) then
            (True, w\<lparr>dir_negative := dir_negative w OR axismask,
                     target_prev := (target_prev w)
                       [idx := target_prev w ! idx - backlash (settings w) ! idx]\<rparr>)
          else (backlash_comp, w)
        else (backlash_comp, w))"

text \<open>
  The loop starts at \<^verbatim>\<open>idx = N_AXIS\<close> and runs its body for \<open>N_AXIS - 1\<close> down to \<open>0\<close>
  (\<open>N_AXIS\<close> is at least one).
\<close>

fun backlash_loop ::
  "'f::{ord,plus,minus} list \<Rightarrow> nat \<Rightarrow> 8 word \<Rightarrow> bool \<times> ('f, 'x) world \<Rightarrow> bool \<times> ('f, 'x) world" where
  "backlash_loop target 0 axismask cw = cw"
| "backlash_loop target (Suc idx) axismask cw =
     backlash_loop target idx (drop_bit 1 axismask) (backlash_axis target idx axismask cw)"

text \<open>
  The whole loop, from \<^verbatim>\<open>backlash_comp = false\<close>, \<^verbatim>\<open>idx = N_AXIS\<close> and
  \<^verbatim>\<open>axismask = bit(N_AXIS - 1)\<close>.
\<close>

definition backlash_scan ::
  "nat \<Rightarrow> 'f::{ord,plus,minus} list \<Rightarrow> ('f, 'x) world \<Rightarrow> bool \<times> ('f, 'x) world" where
  "backlash_scan n target w = backlash_loop target n (push_bit (n - 1) 1) (False, w)"

definition pl_backlash :: "'f::zero plan_line_data \<Rightarrow> 'f plan_line_data" where
  "pl_backlash pl_data =
     pl_zero\<lparr>rapid_motion := True, backlash_motion := True,
             line_number := line_number pl_data, spindle_rpm := spindle_rpm pl_data\<rparr>"

definition memcpy_axes :: "nat \<Rightarrow> 'a list \<Rightarrow> 'a list \<Rightarrow> 'a list" where
  "memcpy_axes n dst src = take n src @ drop n dst"

text \<open>The block under \<^verbatim>\<open>#ifdef ENABLE_BACKLASH_COMPENSATION\<close> of \<^verbatim>\<open>mc_line\<close>.\<close>

definition mc_line_backlash ::
  "('f::{ord,plus,minus,zero}, 'x) env \<Rightarrow> nat \<Rightarrow> 'f list \<Rightarrow> 'f plan_line_data \<Rightarrow>
     ('f, 'x) world \<Rightarrow> bool outcome \<times> ('f, 'x) world" where
  "mc_line_backlash E fuel target pl_data w =
     (if backlash_enabled w \<noteq> 0 then
        (case backlash_scan (N_AXIS E) target w of
           (backlash_comp, w1) \<Rightarrow>
             (case (if backlash_comp then
                      (case plan_wait E fuel w1 of
                         (Returns True, w2) \<Rightarrow>
                           (Returns True, snd (plan_push E (target_prev w2) (pl_backlash pl_data) w2))
                       | r \<Rightarrow> r)
                    else (Returns True, w1)) of
                (Returns True, w3) \<Rightarrow>
                  (Returns True, w3\<lparr>target_prev := memcpy_axes (N_AXIS E) (target_prev w3) target\<rparr>)
              | r \<Rightarrow> r))
      else (Returns True, w))"

text \<open>The rest of the guarded block: wait for room, push the line, laser mode resync.\<close>

definition mc_line_plan ::
  "('f::{ord,plus,minus,zero}, 'x) env \<Rightarrow> nat \<Rightarrow> 'f list \<Rightarrow> 'f plan_line_data \<Rightarrow>
     ('f, 'x) world \<Rightarrow> bool outcome \<times> ('f, 'x) world" where
  "mc_line_plan E fuel target pl_data w =
     (case mc_line_backlash E fuel target pl_data w of
        (Returns True, w1) \<Rightarrow>
          (case plan_wait E fuel w1 of
             (Returns True, w2) \<Rightarrow>
               (case plan_push E target pl_data w2 of
                  (accepted, w3) \<Rightarrow>
                    (let w4 = (if \<not> accepted \<and> laser_mode (settings w3) \<and> spindle_on pl_data
                                  \<and> \<not> spindle_ccw pl_data
                               then do_hal E (Spindle_set_state (spindle_on pl_data)
                                      (spindle_ccw pl_data) (spindle_rpm pl_data)) w3
                               else w3)
                     in (Returns (\<not> ABORTED w4), w4)))
           | r \<Rightarrow> r)
      | r \<Rightarrow> r)"

text \<open>
  \<^verbatim>\<open>mc_line\<close>. Its first statement, the soft limit check, is \<open>mc_line_soft_check\<close>
  (which also notes the call in the history); \<open>mc_line_ready\<close> is the state after the
  realtime check point that follows when the state is not \<^verbatim>\<open>STATE_CHECK_MODE\<close>.
\<close>

definition mc_line_soft_check ::
  "('f, 'x) env \<Rightarrow> 'f list \<Rightarrow> 'f plan_line_data \<Rightarrow> ('f, 'x) world \<Rightarrow> ('f, 'x) world" where
  "mc_line_soft_check E target pl_data w0 =
     (let w = log_event (McLine target pl_data) w0
      in if \<not> jog_motion pl_data \<and> soft_enabled (settings w)
         then framed (limits_soft_check E target) w else w)"

definition mc_line_ready ::
  "('f, 'x) env \<Rightarrow> 'f list \<Rightarrow> 'f plan_line_data \<Rightarrow> ('f, 'x) world \<Rightarrow> ('f, 'x) world" where
  "mc_line_ready E target pl_data w0 =
     snd (protocol_execute_realtime E (mc_line_soft_check E target pl_data w0))"

definition mc_line ::
  "('f::{ord,plus,minus,zero}, 'x) env \<Rightarrow> nat \<Rightarrow> 'f list \<Rightarrow> 'f plan_line_data \<Rightarrow>
     ('f, 'x) world \<Rightarrow> bool outcome \<times> ('f, 'x) world" where
  "mc_line E fuel target pl_data w0 =
     (let w1 = mc_line_soft_check E target pl_data w0
      in if sys_state w1 \<noteq> STATE_CHECK_MODE then
           (case protocol_execute_realtime E w1 of
              (ok, w2) \<Rightarrow>
                if ok then mc_line_plan E fuel target pl_data w2
                else (Returns (\<not> ABORTED w2), w2))
         else (Returns (\<not> ABORTED w1), w1))"


section \<open>The arc decomposer\<close>

text \<open>
  The operations on single precision numbers that are not arithmetic: the C library's
  functions, the comparison \<^verbatim>\<open>==\<close> (\<open>feq\<close>), the cast \<^verbatim>\<open>(uint16_t)\<close>, the
  conversion of an unsigned integer, the value of a decimal literal (\<open>lit\<close>), the constants
  \<^verbatim>\<open>ARC_ANGULAR_TRAVEL_EPSILON\<close> and \<^verbatim>\<open>RADDEG\<close> of a header that is not part of the
  source file, and \<^verbatim>\<open>x += 2.0f * M_PI\<close>, \<^verbatim>\<open>x -= 2.0f * M_PI\<close>, which C computes in
  the type of \<^verbatim>\<open>M_PI\<close>. They are parameters of the model.
\<close>

record 'f fpu =
  atan2f :: "'f \<Rightarrow> 'f \<Rightarrow> 'f"
  floorf :: "'f \<Rightarrow> 'f"
  fabsf :: "'f \<Rightarrow> 'f"
  sqrtf :: "'f \<Rightarrow> 'f"
  cosf :: "'f \<Rightarrow> 'f"
  sinf :: "'f \<Rightarrow> 'f"
  tanf :: "'f \<Rightarrow> 'f"
  powf :: "'f \<Rightarrow> 'f \<Rightarrow> 'f"
  feq :: "'f \<Rightarrow> 'f \<Rightarrow> bool"
  to_uint16 :: "'f \<Rightarrow> 16 word"
  of_uint :: "nat \<Rightarrow> 'f"
  lit :: "rat \<Rightarrow> 'f"
  add_two_pi :: "'f \<Rightarrow> 'f"
  sub_two_pi :: "'f \<Rightarrow> 'f"
  ARC_ANGULAR_TRAVEL_EPSILON :: 'f
  RADDEG :: 'f

record plane_t =
  axis_0 :: nat
  axis_1 :: nat
  axis_linear :: nat

text \<open>
  The values \<^verbatim>\<open>mc_arc\<close> computes before its loop and does not change in it, and the
  variables the loop updates. \<open>arc_position\<close> is the caller's array \<^verbatim>\<open>position\<close>.
\<close>

record 'f arc_consts =
  center_axis0 :: 'f
  center_axis1 :: 'f
  segments :: "16 word"
  theta_per_segment :: 'f
  linear_per_segment :: 'f
  cos_T :: 'f
  sin_T :: 'f
  arc_offset :: "'f list"
  arc_plane :: plane_t

record 'f arc_vars =
  r_axis0 :: 'f
  r_axis1 :: 'f
  arc_count :: nat
  arc_position :: "'f list"

definition arc_angular_travel ::
  "'f::{plus,minus,times,uminus,ord} fpu \<Rightarrow> 'f list \<Rightarrow> 'f list \<Rightarrow> 'f list \<Rightarrow> plane_t \<Rightarrow> bool \<Rightarrow> 'f" where
  "arc_angular_travel F target position offset plane is_clockwise_arc =
     (let center0 = position ! axis_0 plane + offset ! axis_0 plane;
          center1 = position ! axis_1 plane + offset ! axis_1 plane;
          r0 = - (offset ! axis_0 plane);
          r1 = - (offset ! axis_1 plane);
          rt0 = target ! axis_0 plane - center0;
          rt1 = target ! axis_1 plane - center1;
          angular_travel = atan2f F (r0 * rt1 - r1 * rt0) (r0 * rt0 + r1 * rt1)
      in if is_clockwise_arc then
           (if angular_travel \<ge> - ARC_ANGULAR_TRAVEL_EPSILON F then sub_two_pi F angular_travel
            else angular_travel)
         else
           (if angular_travel \<le> ARC_ANGULAR_TRAVEL_EPSILON F then add_two_pi F angular_travel
            else angular_travel))"

definition arc_segments ::
  "'f::{plus,minus,times,inverse} fpu \<Rightarrow> 'f \<Rightarrow> 'f \<Rightarrow> 'f \<Rightarrow> 16 word" where
  "arc_segments F tolerance angular_travel radius =
     to_uint16 F (floorf F (fabsf F (lit F (1/2) * angular_travel * radius)
        / sqrtf F (tolerance * (lit F 2 * radius - tolerance))))"

definition arc_prepare ::
  "'f::{plus,minus,times,uminus,inverse,ord} fpu \<Rightarrow> 'f \<Rightarrow> 'f list \<Rightarrow> 'f list \<Rightarrow> 'f list \<Rightarrow> 'f \<Rightarrow>
     plane_t \<Rightarrow> bool \<Rightarrow> 'f arc_consts" where
  "arc_prepare F tolerance target position offset radius plane is_clockwise_arc =
     (let angular_travel = arc_angular_travel F target position offset plane is_clockwise_arc;
          segs = arc_segments F tolerance angular_travel radius;
          theta = angular_travel / of_uint F (unat segs);
          cos_T0 = lit F 2 - theta * theta
      in \<lparr>center_axis0 = position ! axis_0 plane + offset ! axis_0 plane,
          center_axis1 = position ! axis_1 plane + offset ! axis_1 plane,
          segments = segs,
          theta_per_segment = theta,
          linear_per_segment =
            (target ! axis_linear plane - position ! axis_linear plane) / of_uint F (unat segs),
          cos_T = cos_T0 * lit F (1/2),
          sin_T = theta * lit F (16666667/100000000) * (cos_T0 + lit F 4),
          arc_offset = offset,
          arc_plane = plane\<rparr>)"

definition arc_start :: "'f::uminus list \<Rightarrow> 'f list \<Rightarrow> plane_t \<Rightarrow> 'f arc_vars" where
  "arc_start position offset plane =
     \<lparr>r_axis0 = - (offset ! axis_0 plane), r_axis1 = - (offset ! axis_1 plane),
      arc_count = 0, arc_position = position\<rparr>"

text \<open>The two branches of the loop body: the rotation matrix and the arc correction.\<close>

definition arc_rotate :: "'f::{plus,minus,times} arc_consts \<Rightarrow> 'f arc_vars \<Rightarrow> 'f arc_vars" where
  "arc_rotate K v =
     (let r_axisi = r_axis0 v * sin_T K + r_axis1 v * cos_T K
      in v\<lparr>r_axis0 := r_axis0 v * cos_T K - r_axis1 v * sin_T K,
           r_axis1 := r_axisi,
           arc_count := arc_count v + 1\<rparr>)"

definition arc_correct ::
  "'f::{plus,minus,times,uminus} fpu \<Rightarrow> 'f arc_consts \<Rightarrow> nat \<Rightarrow> 'f arc_vars \<Rightarrow> 'f arc_vars" where
  "arc_correct F K i v =
     (let cos_Ti = cosf F (of_uint F i * theta_per_segment K);
          sin_Ti = sinf F (of_uint F i * theta_per_segment K);
          o0 = arc_offset K ! axis_0 (arc_plane K);
          o1 = arc_offset K ! axis_1 (arc_plane K)
      in v\<lparr>r_axis0 := - o0 * cos_Ti + o1 * sin_Ti,
           r_axis1 := - o0 * sin_Ti - o1 * cos_Ti,
           arc_count := 0\<rparr>)"

definition arc_advance :: "'f::plus arc_consts \<Rightarrow> 'f arc_vars \<Rightarrow> 'f arc_vars" where
  "arc_advance K v =
     (let p0 = (arc_position v)[axis_0 (arc_plane K) := center_axis0 K + r_axis0 v];
          p1 = p0[axis_1 (arc_plane K) := center_axis1 K + r_axis1 v];
          p2 = p1[axis_linear (arc_plane K) := p1 ! axis_linear (arc_plane K) + linear_per_segment K]
      in v\<lparr>arc_position := p2\<rparr>)"

text \<open>The loop body up to the call of \<^verbatim>\<open>mc_line\<close>, for the loop index \<open>i\<close>.\<close>

definition arc_step ::
  "'f::{plus,minus,times,uminus} fpu \<Rightarrow> nat \<Rightarrow> 'f arc_consts \<Rightarrow> nat \<Rightarrow> 'f arc_vars \<Rightarrow> 'f arc_vars" where
  "arc_step F n_arc_correction K i v =
     arc_advance K (if arc_count v < n_arc_correction then arc_rotate K v else arc_correct F K i v)"

text \<open>
  \<^verbatim>\<open>for (i = 1; i < segments; i++)\<close>, with \<open>k\<close> the number of rounds still to run.
  \<open>Returns (False, v)\<close> is the \<^verbatim>\<open>return\<close> after a call of \<^verbatim>\<open>mc_line\<close> that gave false.
\<close>

fun arc_loop ::
  "('f::{plus,minus,times,uminus,ord,zero}, 'x) env \<Rightarrow> 'f fpu \<Rightarrow> nat \<Rightarrow> 'f arc_consts \<Rightarrow>
     'f plan_line_data \<Rightarrow> nat \<Rightarrow> nat \<Rightarrow> 'f arc_vars \<Rightarrow> ('f, 'x) world \<Rightarrow>
     (bool \<times> 'f arc_vars) outcome \<times> ('f, 'x) world" where
  "arc_loop E F fuel K pl_data 0 i v w = (Returns (True, v), w)"
| "arc_loop E F fuel K pl_data (Suc k) i v w =
     (let v' = arc_step F (N_ARC_CORRECTION E) K i v in
      case mc_line E fuel (arc_position v') pl_data w of
        (Returns True, w') \<Rightarrow> arc_loop E F fuel K pl_data k (Suc i) v' w'
      | (Returns False, w') \<Rightarrow> (Returns (False, v'), w')
      | (Hangs, w') \<Rightarrow> (Hangs, w'))"

definition arc_pl_data ::
  "'f::times fpu \<Rightarrow> 16 word \<Rightarrow> 'f plan_line_data \<Rightarrow> 'f plan_line_data" where
  "arc_pl_data F segs pl_data =
     (if segs \<noteq> 0 \<and> inverse_time pl_data
      then pl_data\<lparr>feed_rate := feed_rate pl_data * of_uint F (unat segs), inverse_time := False\<rparr>
      else pl_data)"

text \<open>
  \<^verbatim>\<open>mc_arc\<close>. It returns nothing; the planner data and the position, which it updates
  through the caller's pointers, are given back. \<open>target\<close> and \<open>position\<close> are distinct
  arrays, as at the call in the g-code parser.
\<close>

definition mc_arc ::
  "('f::{plus,minus,times,uminus,inverse,ord,zero}, 'x) env \<Rightarrow> 'f fpu \<Rightarrow> nat \<Rightarrow> 'f list \<Rightarrow>
     'f plan_line_data \<Rightarrow> 'f list \<Rightarrow> 'f list \<Rightarrow> 'f \<Rightarrow> plane_t \<Rightarrow> bool \<Rightarrow> ('f, 'x) world \<Rightarrow>
     ('f plan_line_data \<times> 'f list) outcome \<times> ('f, 'x) world" where
  "mc_arc E F fuel target pl_data position offset radius plane is_clockwise_arc w =
     (let K = arc_prepare F (arc_tolerance (settings w)) target position offset radius plane
                is_clockwise_arc;
          pl1 = arc_pl_data F (segments K) pl_data
      in case (if segments K \<noteq> 0
               then arc_loop E F fuel K pl1 (unat (segments K) - 1) 1
                      (arc_start position offset plane) w
               else (Returns (True, arc_start position offset plane), w)) of
           (Returns (True, v), w') \<Rightarrow>
             (case mc_line E fuel target pl1 w' of
                (Returns ok, w'') \<Rightarrow> (Returns (pl1, arc_position v), w'')
              | (Hangs, w'') \<Rightarrow> (Hangs, w''))
         | (Returns (False, v), w') \<Rightarrow> (Returns (pl1, arc_position v), w')
         | (Hangs, w') \<Rightarrow> (Hangs, w'))"

text \<open>
  The loop variables when the loop body has run for \<open>i = 1, ..., n\<close>: the \<open>n\<close>-th
  intermediate point of the arc is \<open>arc_position (arc_state F N K v n)\<close>.
\<close>

primrec arc_state ::
  "'f::{plus,minus,times,uminus} fpu \<Rightarrow> nat \<Rightarrow> 'f arc_consts \<Rightarrow> 'f arc_vars \<Rightarrow> nat \<Rightarrow> 'f arc_vars" where
  "arc_state F N K v 0 = v"
| "arc_state F N K v (Suc n) = arc_step F N K (Suc n) (arc_state F N K v n)"

text \<open>The calls of \<^verbatim>\<open>mc_line\<close> in a history.\<close>

fun is_mc_line :: "'f event \<Rightarrow> bool" where
  "is_mc_line (McLine t p) = True"
| "is_mc_line e = False"

definition mc_lines :: "('f, 'x) world \<Rightarrow> 'f event list" where
  "mc_lines w = filter is_mc_line (trace w)"

section \<open>Dwell and the threading cycle\<close>

text \<open>
  \<^verbatim>\<open>protocol_buffer_synchronize\<close>: the loop
  \<^verbatim>\<open>while ((ok = protocol_execute_realtime()) && (plan_get_current_block() || sys.state == STATE_CYCLE));\<close>
  after one auto cycle start.
\<close>

fun buffer_sync_loop ::
  "('f, 'x) env \<Rightarrow> nat \<Rightarrow> ('f, 'x) world \<Rightarrow> bool outcome \<times> ('f, 'x) world" where
  "buffer_sync_loop E 0 w =
     (case protocol_execute_realtime E w of
        (ok, w') \<Rightarrow>
          if ok \<and> (plan_get_current_block E (ext w') \<or> sys_state w' = STATE_CYCLE)
          then (Hangs, w') else (Returns ok, w'))"
| "buffer_sync_loop E (Suc n) w =
     (case protocol_execute_realtime E w of
        (ok, w') \<Rightarrow>
          if ok \<and> (plan_get_current_block E (ext w') \<or> sys_state w' = STATE_CYCLE)
          then buffer_sync_loop E n w' else (Returns ok, w'))"

definition protocol_buffer_synchronize ::
  "('f, 'x) env \<Rightarrow> nat \<Rightarrow> ('f, 'x) world \<Rightarrow> bool outcome \<times> ('f, 'x) world" where
  "protocol_buffer_synchronize E fuel w = buffer_sync_loop E fuel (protocol_auto_cycle_start E w)"

definition mc_dwell ::
  "('f, 'x) env \<Rightarrow> nat \<Rightarrow> 'f \<Rightarrow> ('f, 'x) world \<Rightarrow> bool outcome \<times> ('f, 'x) world" where
  "mc_dwell E fuel seconds w0 =
     (let w = log_event (Dwell seconds) w0
      in if sys_state w \<noteq> STATE_CHECK_MODE then
           (case protocol_buffer_synchronize E fuel w of
              (Returns ok, w') \<Rightarrow> (Returns True, framed (delay_sec E seconds) w')
            | (Hangs, w') \<Rightarrow> (Hangs, w'))
         else (Returns True, w))"

datatype taper_type = Taper_None | Taper_Entry | Taper_Exit | Taper_Both

record 'f gc_thread_data =
  z_final :: 'f
  peak :: 'f
  initial_depth :: 'f
  depth :: 'f
  depth_degression :: 'f
  infeed_angle :: 'f
  spring_passes :: nat
  end_taper_type :: taper_type
  end_taper_length :: 'f
  main_taper_height :: 'f
  cut_direction :: 'f



text \<open>
  What \<^verbatim>\<open>mc_thread\<close> fixes before its loop over the passes (\<open>th_thread\<close> is the thread
  data with the sign of the end taper length and the main taper height adjusted), and the
  variables the passes update: the caller's planner data, the target, the depth of cut
  and the pass number.
\<close>

record 'f thread_consts =
  th_thread :: "'f gc_thread_data"
  th_position :: "'f list"
  th_length :: 'f
  th_infeed :: 'f
  th_inv_degression :: 'f
  th_fhd :: bool

record 'f thread_vars =
  th_pl :: "'f plan_line_data"
  th_target :: "'f list"
  th_doc :: 'f
  th_pass :: nat

text \<open>
  Steps of a pass take the variables and the state and give \<open>Returns True\<close> to go on,
  \<open>Returns False\<close> for the \<^verbatim>\<open>return\<close> after a call of \<^verbatim>\<open>mc_line\<close> that gave false.
\<close>

type_synonym ('f, 'x) th_step =
  "'f thread_vars \<Rightarrow> ('f, 'x) world \<Rightarrow> bool outcome \<times> 'f thread_vars \<times> ('f, 'x) world"


definition th_line ::
  "('f::{ord,plus,minus,zero}, 'x) env \<Rightarrow> nat \<Rightarrow> ('f, 'x) th_step" where
  "th_line E fuel v w = (case mc_line E fuel (th_target v) (th_pl v) w of (r, w') \<Rightarrow> (r, v, w'))"

definition th_add :: "nat \<Rightarrow> 'f::plus \<Rightarrow> 'f thread_vars \<Rightarrow> 'f thread_vars" where
  "th_add axis d v = v\<lparr>th_target := (th_target v)[axis := th_target v ! axis + d]\<rparr>"

definition th_sub :: "nat \<Rightarrow> 'f::minus \<Rightarrow> 'f thread_vars \<Rightarrow> 'f thread_vars" where
  "th_sub axis d v = v\<lparr>th_target := (th_target v)[axis := th_target v ! axis - d]\<rparr>"

definition th_set :: "nat \<Rightarrow> 'f \<Rightarrow> 'f thread_vars \<Rightarrow> 'f thread_vars" where
  "th_set axis x v = v\<lparr>th_target := (th_target v)[axis := x]\<rparr>"



text \<open>The rapid move in X to the peak plus depth of cut, made when there is no end taper.\<close>

definition thread_enter ::
  "('f::{ord,plus,minus,times,zero}, 'x) env \<Rightarrow> nat \<Rightarrow> 'f thread_consts \<Rightarrow> ('f, 'x) th_step" where
  "thread_enter E fuel C v w =
     (if end_taper_type (th_thread C) = Taper_None then
        th_line E fuel
          (th_add (X_AXIS E) ((peak (th_thread C) + th_doc v) * cut_direction (th_thread C)) v) w
      else (Returns True, v, w))"












text \<open>The calls of \<^verbatim>\<open>mc_line\<close> and \<^verbatim>\<open>mc_dwell\<close> in a history.\<close>

fun is_call :: "'f event \<Rightarrow> bool" where
  "is_call (McLine t p) = True"
| "is_call (Dwell s) = True"
| "is_call e = False"

definition calls :: "('f, 'x) world \<Rightarrow> 'f event list" where
  "calls w = filter is_call (trace w)"



text \<open>
  A step of a pass makes \<open>n\<close> moves when it leaves the planner data, the depth of cut and
  the pass number as they are, calls \<^verbatim>\<open>mc_line\<close> with the planner data it was entered
  with and nothing else, and has made \<open>n\<close> such calls when it goes on.
\<close>

definition moves :: "('f, 'x) th_step \<Rightarrow> nat \<Rightarrow> bool" where
  "moves f n = (\<forall>v w r v' w'. f v w = (r, v', w') \<longrightarrow>
     th_pl v' = th_pl v \<and> th_doc v' = th_doc v \<and> th_pass v' = th_pass v \<and>
     (\<exists>ts. calls w' = calls w @ map (\<lambda>t. McLine t (th_pl v)) ts
        \<and> (r = Returns True \<longrightarrow> length ts = n)))"


section \<open>Reset, homing and parking\<close>

text \<open>
  \<^verbatim>\<open>mc_reset\<close>. \<^verbatim>\<open>sys.state\<close> holds one state at a time, so the test
  \<^verbatim>\<open>sys.state & (STATE_CYCLE|STATE_HOMING|STATE_JOG)\<close> is membership.
\<close>

definition mc_reset :: "('f, 'x) env \<Rightarrow> ('f, 'x) world \<Rightarrow> ('f, 'x) world" where
  "mc_reset E w =
     (if EXEC_RESET \<notin> sys_rt_exec_state w then
        (let w1 = system_set_exec_state_flag EXEC_RESET w;
             w2 = do_hal E Spindle_off w1;
             w3 = do_hal E Coolant_off w2;
             w4 = (if has_driver_reset E then do_hal E Driver_reset w3 else w3);
             w5 = (if has_suspend_read E then do_hal E (Suspend_read False) w4 else w4);
             w6 = (if sys_state w5 \<in> {STATE_CYCLE, STATE_HOMING, STATE_JOG}
                      \<or> execute_hold (step_control w5) \<or> execute_sys_motion (step_control w5)
                   then do_st E St_go_idle
                          (if sys_state w5 \<noteq> STATE_HOMING
                           then system_set_exec_alarm Alarm_AbortCycle w5
                           else if sys_rt_exec_alarm w5 = []
                                then system_set_exec_alarm Alarm_HomingFailReset w5
                                else w5)
                   else w5)
         in if control_e_stop E (ext w6) then system_set_exec_alarm Alarm_EStop w6 else w6)
      else w)"

definition go_home :: "('f, 'x) env \<Rightarrow> 8 word \<Rightarrow> ('f, 'x) world \<Rightarrow> bool \<times> ('f, 'x) world" where
  "go_home E cycle w =
     (case limits_go_home E cycle (log_event (GoHome cycle) w) of
        (ok, w') \<Rightarrow> (ok, w'\<lparr>trace := trace w @ [GoHome cycle]\<rparr>))"

text \<open>
  \<^verbatim>\<open>do { ... } while(++idx < N_AXIS)\<close> over the configured homing cycles, with \<open>k\<close> the
  number of rounds after this one. It gives back the local \<^verbatim>\<open>cycle.mask\<close>.
\<close>

fun homing_loop ::
  "('f, 'x) env \<Rightarrow> nat \<Rightarrow> nat \<Rightarrow> 8 word \<Rightarrow> ('f, 'x) world \<Rightarrow> 8 word \<times> ('f, 'x) world" where
  "homing_loop E 0 idx cycle w =
     (if homing_cycle (settings w) ! idx \<noteq> 0
      then (homing_cycle (settings w) ! idx, snd (go_home E (homing_cycle (settings w) ! idx) w))
      else (cycle, w))"
| "homing_loop E (Suc k) idx cycle w =
     (if homing_cycle (settings w) ! idx \<noteq> 0 then
        (case go_home E (homing_cycle (settings w) ! idx) w of
           (ok, w') \<Rightarrow>
             if \<not> ok then (homing_cycle (settings w) ! idx, w')
             else homing_loop E k (Suc idx) (homing_cycle (settings w) ! idx) w')
      else homing_loop E k (Suc idx) cycle w)"

definition mc_homing_cycle ::
  "('f, 'x) env \<Rightarrow> 8 word \<Rightarrow> ('f, 'x) world \<Rightarrow> status_code \<times> ('f, 'x) world" where
  "mc_homing_cycle E cycle w =
     (if two_switches (settings w) \<and> limits_get_state E (ext w) \<noteq> 0 then
        (Status_Unhandled, system_set_exec_alarm Alarm_HardLimit (mc_reset E w))
      else
        (let w1 = do_hal E (Limits_enable False True) w;
             (cycle', w2) = (if cycle \<noteq> 0 then (cycle, snd (go_home E cycle w1))
                             else homing_loop E (N_AXIS E - 1) 0 cycle (w1\<lparr>homed_mask := 0\<rparr>))
         in case (if cycle' \<noteq> 0 then
                    (case protocol_execute_realtime E w2 of
                       (ok, w3) \<Rightarrow>
                         if \<not> ok then (False, w3)
                         else (True, do_hal E Plan_sync_position (do_hal E Gc_sync_position w3)))
                  else (True, w2)) of
              (False, w3) \<Rightarrow> (Status_Unhandled, w3)
            | (True, w3) \<Rightarrow>
                (let w4 = w3\<lparr>sys_report := sys_report w3 OR report_homed E\<rparr>;
                     w5 = do_hal E (Limits_enable (hard_enabled (settings w4)) False) w4
                 in (if hard_enabled (settings w5) \<and> check_at_init (settings w5)
                        \<and> limits_get_state E (ext w5) \<noteq> 0
                     then Status_LimitsEngaged else Status_OK, w5))))"

text \<open>\<^verbatim>\<open>mc_parking_motion\<close>, and the two parts of its accepted branch.\<close>

definition parking_start :: "('f, 'x) world \<Rightarrow> ('f, 'x) world" where
  "parking_start w =
     w\<lparr>step_control := (step_control w)\<lparr>execute_sys_motion := True, end_motion := False\<rparr>\<rparr>"

definition parking_stepper :: "('f, 'x) env \<Rightarrow> ('f, 'x) world \<Rightarrow> ('f, 'x) world" where
  "parking_stepper E w =
     do_st E St_wake_up (do_st E St_prep_buffer (do_st E St_parking_setup_buffer w))"

definition mc_parking_motion ::
  "('f, 'x) env \<Rightarrow> 'f list \<Rightarrow> 'f plan_line_data \<Rightarrow> ('f, 'x) world \<Rightarrow> bool \<times> ('f, 'x) world" where
  "mc_parking_motion E parking_target pl_data w =
     (if sys_abort w then (False, w)
      else (case plan_push E parking_target pl_data w of
              (True, w1) \<Rightarrow> (True, parking_stepper E (parking_start w1))
            | (False, w1) \<Rightarrow> (False, system_set_exec_state_flag EXEC_CYCLE_COMPLETE w1)))"

section \<open>Realtime command ingest\<close>

text \<open>
  The command codes of the first \<^verbatim>\<open>switch\<close> of
  \<^verbatim>\<open>protocol_enqueue_realtime_command\<close> are macros of a header that is not part of the
  source file: they are parameters.
\<close>

record rt_codes =
  CMD_STOP :: "8 word"
  CMD_RESET :: "8 word"
  CMD_EXIT :: "8 word"
  CMD_STATUS_REPORT_ALL :: "8 word"
  CMD_STATUS_REPORT :: "8 word"
  CMD_CYCLE_START :: "8 word"
  CMD_FEED_HOLD :: "8 word"
  CMD_SAFETY_DOOR :: "8 word"
  CMD_JOG_CANCEL :: "8 word"
  CMD_GCODE_REPORT :: "8 word"
  CMD_OPTIONAL_STOP_TOGGLE :: "8 word"
  CMD_PID_REPORT :: "8 word"
  CMD_OVERRIDE_FEED :: "8 word list"
  CMD_OVERRIDE_ACCESSORY :: "8 word list"

text \<open>
  Modelled from the spec: the legacy codes are macros of the same missing header; the spec
  names them: status report \<^verbatim>\<open>?\<close>, cycle start \<^verbatim>\<open>~\<close>, feed hold \<^verbatim>\<open>!\<close>.
\<close>

definition CMD_STATUS_REPORT_LEGACY :: "8 word" where
  "CMD_STATUS_REPORT_LEGACY = 0x3F"

definition CMD_CYCLE_START_LEGACY :: "8 word" where
  "CMD_CYCLE_START_LEGACY = 0x7E"

definition CMD_FEED_HOLD_LEGACY :: "8 word" where
  "CMD_FEED_HOLD_LEGACY = 0x21"

text \<open>
  The comparisons of the \<^verbatim>\<open>default\<close> case are made on \<^verbatim>\<open>c\<close> as a \<^verbatim>\<open>char\<close>, the
  \<^verbatim>\<open>switch\<close> on \<^verbatim>\<open>(unsigned char)c\<close>.
\<close>

definition char_val :: "('f, 'x) env \<Rightarrow> 8 word \<Rightarrow> int" where
  "char_val E c = (if char_is_signed E then sint c else uint c)"

text \<open>The case labels of the first \<^verbatim>\<open>switch\<close>.\<close>

definition assigned_codes :: "rt_codes \<Rightarrow> 8 word set" where
  "assigned_codes K =
     {0x0A, 0x0D, 0x05, CMD_STOP K, CMD_RESET K, CMD_EXIT K, CMD_STATUS_REPORT_ALL K,
      CMD_STATUS_REPORT K, CMD_CYCLE_START K, CMD_FEED_HOLD K, CMD_SAFETY_DOOR K,
      CMD_JOG_CANCEL K, CMD_GCODE_REPORT K, CMD_OPTIONAL_STOP_TOGGLE K, CMD_PID_REPORT K}
     \<union> set (CMD_OVERRIDE_FEED K) \<union> set (CMD_OVERRIDE_ACCESSORY K)"

definition rt_first_switch ::
  "('f, 'x) env \<Rightarrow> rt_codes \<Rightarrow> 8 word \<Rightarrow> ('f, 'x) world \<Rightarrow> bool \<times> ('f, 'x) world" where
  "rt_first_switch E K c w =
     (if c = 0x0A \<or> c = 0x0D then (False, w)
      else if c = CMD_STOP K then
        (True, do_hal E Cancel_read_buffer
                 ((system_set_exec_state_flag EXEC_STOP w)\<lparr>char_counter := 0\<rparr>))
      else if c = CMD_RESET K then
        (True, if \<not> control_e_stop E (ext w) then mc_reset E w else w)
      else if c = CMD_EXIT K then (True, (mc_reset E w)\<lparr>sys_exit := True\<rparr>)
      else if c = CMD_STATUS_REPORT_ALL K then
        (True, system_set_exec_state_flag EXEC_STATUS_REPORT (w\<lparr>sys_report := - 1\<rparr>))
      else if c = CMD_STATUS_REPORT K \<or> c = 0x05 then
        (True, system_set_exec_state_flag EXEC_STATUS_REPORT w)
      else if c = CMD_CYCLE_START K then
        (True, (system_set_exec_state_flag EXEC_CYCLE_START w)\<lparr>gc_tool_change := False\<rparr>)
      else if c = CMD_FEED_HOLD K then (True, system_set_exec_state_flag EXEC_FEED_HOLD w)
      else if c = CMD_SAFETY_DOOR K then
        (if \<not> cap_safety_door E then (True, system_set_exec_state_flag EXEC_SAFETY_DOOR w)
         else (False, w))
      else if c = CMD_JOG_CANCEL K then
        (let w1 = do_hal E Cancel_read_buffer (w\<lparr>char_counter := 0\<rparr>)
         in (True, if kinematics_api E \<and> sys_state w1 = STATE_JOG
                   then system_set_exec_state_flag EXEC_MOTION_CANCEL w1 else w1))
      else if c = CMD_GCODE_REPORT K then (True, system_set_exec_state_flag EXEC_GCODE_REPORT w)
      else if c = CMD_OPTIONAL_STOP_TOGGLE K then
        (False, if \<not> cap_program_stop E
                then w\<lparr>optional_stop_disable := \<not> optional_stop_disable w\<rparr> else w)
      else if c = CMD_PID_REPORT K then (True, system_set_exec_state_flag EXEC_PID_REPORT w)
      else if c \<in> set (CMD_OVERRIDE_FEED K) then (True, do_hal E (Enqueue_feed_override c) w)
      else if c \<in> set (CMD_OVERRIDE_ACCESSORY K) then
        (True, do_hal E (Enqueue_accessory_override c) w)
      else (char_val E c < 0x20 \<or> (char_val E c \<ge> 0x7F \<and> char_val E c \<le> 0xBF), w))"

definition legacy_ok :: "('f, 'x) world \<Rightarrow> bool" where
  "legacy_ok w = (\<not> keep_rt_commands w \<or> legacy_rt_commands (settings w))"

definition rt_second_switch :: "8 word \<Rightarrow> ('f, 'x) world \<Rightarrow> bool \<times> ('f, 'x) world" where
  "rt_second_switch c w =
     (if c = CMD_STATUS_REPORT_LEGACY then
        (if legacy_ok w then (True, system_set_exec_state_flag EXEC_STATUS_REPORT w)
         else (False, w))
      else if c = CMD_CYCLE_START_LEGACY then
        (if legacy_ok w
         then (True, (system_set_exec_state_flag EXEC_CYCLE_START w)\<lparr>gc_tool_change := False\<rparr>)
         else (False, w))
      else if c = CMD_FEED_HOLD_LEGACY then
        (if legacy_ok w then (True, system_set_exec_state_flag EXEC_FEED_HOLD w)
         else (False, w))
      else (\<not> (keep_rt_commands w \<or> uint c < 0x7F), w))"

definition protocol_enqueue_realtime_command ::
  "('f, 'x) env \<Rightarrow> rt_codes \<Rightarrow> 8 word \<Rightarrow> ('f, 'x) world \<Rightarrow> bool \<times> ('f, 'x) world" where
  "protocol_enqueue_realtime_command E K c w =
     (case rt_first_switch E K c w of
        (dropped, w1) \<Rightarrow> if \<not> dropped then rt_second_switch c w1 else (True, w1))"

section \<open>A test bench\<close>

text \<open>
  A three-axis machine with backlash configured on X only, an empty planner that accepts
  every line, and collaborators that do nothing. Numbers are exact reals here.
\<close>

definition bench_settings :: "real settings_t" where
  "bench_settings = \<lparr>backlash = [1/10, 0, 0], soft_enabled = False, hard_enabled = False,
     check_at_init = False, two_switches = False, laser_mode = False,
     legacy_rt_commands = False, arc_tolerance = 1/500, homing_cycle = [4, 3, 0]\<rparr>"

definition bench_world :: "(real, unit) world" where
  "bench_world = \<lparr>sys_state = STATE_IDLE, sys_abort = False, sys_cancel = False,
     sys_exit = False, optional_stop_disable = False,
     step_control = \<lparr>execute_hold = False, execute_sys_motion = False, end_motion = False\<rparr>,
     homed_mask = 0, sys_report = 0, sys_rt_exec_state = {}, sys_rt_exec_alarm = [],
     gc_tool_change = False, char_counter = 0, keep_rt_commands = False,
     target_prev = [0, 0, 0], dir_negative = 7, backlash_enabled = 1,
     settings = bench_settings, ext = (), trace = []\<rparr>"

definition bench_env :: "(real, unit) env" where
  "bench_env = \<lparr>N_AXIS = 3, X_AXIS = 0, Z_AXIS = 2, N_ARC_CORRECTION = 12,
     plan_check_full_buffer = (\<lambda>x. False), plan_get_current_block = (\<lambda>x. False),
     plan_buffer_line = (\<lambda>t p x. (True, x)), hal_call = (\<lambda>c x. x), st_call = (\<lambda>c s. s),
     limits_get_state = (\<lambda>x. 0), control_e_stop = (\<lambda>x. False), exec_rt = (\<lambda>w. w),
     limits_soft_check = (\<lambda>t w. w), limits_go_home = (\<lambda>m w. (True, w)),
     delay_sec = (\<lambda>s w. w), has_driver_reset = False, has_suspend_read = False,
     cap_safety_door = False, cap_program_stop = False, kinematics_api = False,
     char_is_signed = False, report_homed = 1\<rparr>"


definition aborted_check_world :: "(real, unit) world" where
  "aborted_check_world = bench_world\<lparr>sys_state := STATE_CHECK_MODE, sys_abort := True\<rparr>"

text \<open>
  On the bench the C library is replaced by crude stand-ins: they only serve to
  make closed examples. With \<open>atan2f\<close> fixed at 11/7 and \<open>sqrtf\<close> at 1/5, the quarter
  circle of radius 10 of scenario S2 gets 39 segments, and the quarter circle of radius 1
  gets three.
\<close>

definition bench_fpu :: "real fpu" where
  "bench_fpu = \<lparr>atan2f = (\<lambda>y x. 11/7), floorf = (\<lambda>x. of_int \<lfloor>x\<rfloor>), fabsf = abs,
     sqrtf = (\<lambda>x. 1/5), cosf = (\<lambda>x. 1 - x * x / 2), sinf = (\<lambda>x. x - x * x * x / 6),
     tanf = (\<lambda>x. x), powf = (\<lambda>x y. x), feq = (=), to_uint16 = (\<lambda>x. word_of_int \<lfloor>x\<rfloor>),
     of_uint = of_nat, lit = of_rat, add_two_pi = (\<lambda>x. x + 44/7),
     sub_two_pi = (\<lambda>x. x - 44/7), ARC_ANGULAR_TRAVEL_EPSILON = 1/2000000,
     RADDEG = 1/57\<rparr>"

definition plane_xy :: plane_t where
  "plane_xy = \<lparr>axis_0 = 0, axis_1 = 1, axis_linear = 2\<rparr>"

definition s2_arc :: "real arc_consts" where
  "s2_arc = arc_prepare bench_fpu (arc_tolerance bench_settings) [0, 10, 0] [10, 0, 0]
     [-10, 0, 0] 10 plane_xy False"

definition s2_start :: "real arc_vars" where
  "s2_start = arc_start [10, 0, 0] [-10, 0, 0] plane_xy"

definition plain_world :: "(real, unit) world" where
  "plain_world = bench_world\<lparr>backlash_enabled := 0\<rparr>"




text \<open>The customary assignment of the realtime command codes.\<close>

definition bench_codes :: rt_codes where
  "bench_codes = \<lparr>CMD_STOP = 0x19, CMD_RESET = 0x18, CMD_EXIT = 0x03,
     CMD_STATUS_REPORT_ALL = 0x87, CMD_STATUS_REPORT = 0x80, CMD_CYCLE_START = 0x81,
     CMD_FEED_HOLD = 0x82, CMD_SAFETY_DOOR = 0x84, CMD_JOG_CANCEL = 0x85,
     CMD_GCODE_REPORT = 0x83, CMD_OPTIONAL_STOP_TOGGLE = 0x88, CMD_PID_REPORT = 0xA2,
     CMD_OVERRIDE_FEED = [0x90, 0x91, 0x92, 0x93, 0x94, 0x95, 0x96, 0x97],
     CMD_OVERRIDE_ACCESSORY = [0x99, 0x9A, 0x9B, 0x9C, 0x9D, 0x9E, 0xA0, 0xA1]\<rparr>"

text \<open>
  A machine with two limit switches on one pin, in the homing state with a switch active,
  and a planner that rejects every line.
\<close>

definition switch_env :: "(real, unit) env" where
  "switch_env = bench_env\<lparr>limits_get_state := (\<lambda>x. 1)\<rparr>"

definition switch_world :: "(real, unit) world" where
  "switch_world = bench_world\<lparr>sys_state := STATE_HOMING,
     settings := bench_settings\<lparr>two_switches := True\<rparr>\<rparr>"

definition reject_env :: "(real, unit) env" where
  "reject_env = bench_env\<lparr>plan_buffer_line := (\<lambda>t p x. (False, x))\<rparr>"

section \<open>Properties of the motion gateway\<close>

lemma framed_trace [simp]: "trace (framed f w) = trace w"
  by (simp add: framed_def)

lemma auto_cycle_start_trace [simp]: "trace (protocol_auto_cycle_start E w) = trace w"
  by (simp add: protocol_auto_cycle_start_def system_set_exec_state_flag_def)

lemma execute_realtime_trace [simp]: "trace (snd (protocol_execute_realtime E w)) = trace w"
  by (simp add: protocol_execute_realtime_def Let_def)

lemma execute_realtime_ok:
  "protocol_execute_realtime E w = (ok, w') \<Longrightarrow> ok = (\<not> ABORTED w') \<and> trace w' = trace w"
  by (auto simp: protocol_execute_realtime_def Let_def)

lemma plan_wait_trace [simp]: "trace (snd (plan_wait E n w)) = trace w"
proof (induction n arbitrary: w)
  case 0
  show ?case by simp
next
  case (Suc n)
  show ?case
  proof (cases "plan_check_full_buffer E (ext w)")
    case False
    then show ?thesis by simp
  next
    case True
    obtain ok w' where rt: "protocol_execute_realtime E (protocol_auto_cycle_start E w) = (ok, w')"
      by (cases "protocol_execute_realtime E (protocol_auto_cycle_start E w)")
    from execute_realtime_ok [OF rt] have tr: "trace w' = trace w" by simp
    show ?thesis using True rt tr Suc.IH [of w'] by simp
  qed
qed

lemma plan_wait_false_aborted:
  "plan_wait E n w = (Returns False, w') \<Longrightarrow> ABORTED w'"
proof (induction n arbitrary: w)
  case 0
  then show ?case by (simp split: if_splits)
next
  case (Suc n)
  show ?case
  proof (cases "plan_check_full_buffer E (ext w)")
    case False
    with Suc.prems show ?thesis by simp
  next
    case True
    obtain ok w1 where rt: "protocol_execute_realtime E (protocol_auto_cycle_start E w) = (ok, w1)"
      by (cases "protocol_execute_realtime E (protocol_auto_cycle_start E w)")
    show ?thesis
    proof (cases ok)
      case True
      with Suc.prems \<open>plan_check_full_buffer E (ext w)\<close> rt have "plan_wait E n w1 = (Returns False, w')"
        by simp
      then show ?thesis by (rule Suc.IH)
    next
      case False
      with Suc.prems \<open>plan_check_full_buffer E (ext w)\<close> rt have "w' = w1" by simp
      with execute_realtime_ok [OF rt] False show ?thesis by simp
    qed
  qed
qed

lemma backlash_axis_trace [simp]: "trace (snd (backlash_axis t i m cw)) = trace (snd cw)"
  by (cases cw) (simp add: backlash_axis_def)

lemma backlash_loop_numeral:
  "backlash_loop t (numeral k) m cw =
     backlash_loop t (pred_numeral k) (drop_bit 1 m) (backlash_axis t (pred_numeral k) m cw)"
  by (simp add: numeral_eq_Suc)

lemma backlash_loop_one:
  "backlash_loop t 1 m cw = backlash_axis t 0 m cw"
  by simp

lemma backlash_loop_trace [simp]: "trace (snd (backlash_loop t n m cw)) = trace (snd cw)"
  by (induction n arbitrary: m cw) simp_all

lemma backlash_axis_same:
  "\<not> target_prev w ! i < t ! i \<Longrightarrow> \<not> t ! i < target_prev w ! i \<Longrightarrow>
   backlash_axis t i m (c, w) = (c, w)"
  by (simp add: backlash_axis_def)

lemma backlash_loop_same:
  "\<forall>i<n. \<not> target_prev w ! i < t ! i \<and> \<not> t ! i < target_prev w ! i \<Longrightarrow>
   backlash_loop t n m (c, w) = (c, w)"
  by (induction n arbitrary: m) (simp_all add: backlash_axis_same)

lemma backlash_scan_trace [simp]: "trace (snd (backlash_scan n t w)) = trace w"
  by (simp add: backlash_scan_def)

lemma backlash_scan_same:
  "\<forall>i<n. \<not> target_prev w ! i < t ! i \<and> \<not> t ! i < target_prev w ! i \<Longrightarrow>
   backlash_scan n t w = (False, w)"
  unfolding backlash_scan_def by (rule backlash_loop_same)

lemma plan_push_trace [simp]:
  "trace (snd (plan_push E t p w)) = trace w @ [PlanLine t p]"
  by (simp add: plan_push_def log_event_def split: prod.splits)


lemma mc_line_backlash_trace:
  fixes t :: "'f::{ord,plus,minus,zero} list"
  shows "\<exists>bl. trace (snd (mc_line_backlash E fuel t pl w)) = trace w @ bl
           \<and> (bl = [] \<or> (\<exists>tp. bl = [PlanLine tp (pl_backlash pl)]))
           \<and> ((\<forall>i<N_AXIS E. \<not> target_prev w ! i < t ! i \<and> \<not> t ! i < target_prev w ! i)
                \<longrightarrow> bl = [])"
proof (cases "backlash_enabled w = 0")
  case True
  then show ?thesis by (simp add: mc_line_backlash_def)
next
  case en: False
  obtain comp w1 where lp: "backlash_scan (N_AXIS E) t w = (comp, w1)"
    by (cases "backlash_scan (N_AXIS E) t w")
  have tr1: "trace w1 = trace w"
    using backlash_scan_trace [of "N_AXIS E" t w] lp by simp
  have same: "(\<forall>i<N_AXIS E. \<not> target_prev w ! i < t ! i \<and> \<not> t ! i < target_prev w ! i)
      \<Longrightarrow> \<not> comp"
    using backlash_scan_same [of "N_AXIS E" w t] lp by simp
  show ?thesis
  proof (cases comp)
    case False
    then show ?thesis using en lp tr1 by (simp add: mc_line_backlash_def)
  next
    case True
    obtain r w2 where pw: "plan_wait E fuel w1 = (r, w2)"
      by (cases "plan_wait E fuel w1")
    have tr2: "trace w2 = trace w"
      using plan_wait_trace [of E fuel w1] pw tr1 by simp
    show ?thesis
    proof (cases "r = Returns True")
      case True
      have "trace (snd (mc_line_backlash E fuel t pl w))
              = trace w @ [PlanLine (target_prev w2) (pl_backlash pl)]"
        using en lp \<open>comp\<close> pw True tr2 by (simp add: mc_line_backlash_def)
      then show ?thesis using same \<open>comp\<close> by auto
    next
      case False
      then have "mc_line_backlash E fuel t pl w = (r, w2)"
        using en lp \<open>comp\<close> pw
        by (cases r) (auto simp: mc_line_backlash_def split: bool.splits)
      then show ?thesis using tr2 same \<open>comp\<close> by auto
    qed
  qed
qed

lemma do_hal_trace [simp]: "trace (do_hal E c w) = trace w"
  by (simp add: do_hal_def)

lemma mc_line_plan_trace:
  fixes t :: "'f::{ord,plus,minus,zero} list"
  shows "\<exists>bl us. trace (snd (mc_line_plan E fuel t pl w)) = trace w @ bl @ us
           \<and> (bl = [] \<or> (\<exists>tp. bl = [PlanLine tp (pl_backlash pl)]))
           \<and> (us = [] \<or> us = [PlanLine t pl])
           \<and> ((\<forall>i<N_AXIS E. \<not> target_prev w ! i < t ! i \<and> \<not> t ! i < target_prev w ! i)
                \<longrightarrow> bl = [])"
proof -
  obtain r1 w1 where b: "mc_line_backlash E fuel t pl w = (r1, w1)"
    by (cases "mc_line_backlash E fuel t pl w")
  obtain bl where bl: "trace w1 = trace w @ bl"
     "bl = [] \<or> (\<exists>tp. bl = [PlanLine tp (pl_backlash pl)])"
     "(\<forall>i<N_AXIS E. \<not> target_prev w ! i < t ! i \<and> \<not> t ! i < target_prev w ! i) \<longrightarrow> bl = []"
    using mc_line_backlash_trace [of E fuel t pl w] b by auto
  obtain r2 w2 where pw: "plan_wait E fuel w1 = (r2, w2)"
    by (cases "plan_wait E fuel w1")
  have tr2: "trace w2 = trace w1"
    using plan_wait_trace [of E fuel w1] pw by simp
  have "trace (snd (mc_line_plan E fuel t pl w)) = trace w1
      \<or> trace (snd (mc_line_plan E fuel t pl w)) = trace w1 @ [PlanLine t pl]"
  proof (cases "r1 = Returns True")
    case False
    then have "mc_line_plan E fuel t pl w = (r1, w1)"
      using b by (cases r1) (auto simp: mc_line_plan_def split: bool.splits)
    then show ?thesis by simp
  next
    case r1: True
    show ?thesis
    proof (cases "r2 = Returns True")
      case False
      then have "mc_line_plan E fuel t pl w = (r2, w2)"
        using b r1 pw by (cases r2) (auto simp: mc_line_plan_def split: bool.splits)
      then show ?thesis using tr2 by simp
    next
      case True
      obtain acc w3 where pp: "plan_push E t pl w2 = (acc, w3)"
        by (cases "plan_push E t pl w2")
      have tr3: "trace w3 = trace w1 @ [PlanLine t pl]"
        using plan_push_trace [of E t pl w2] pp tr2 by simp
      have "trace (snd (mc_line_plan E fuel t pl w)) = trace w3"
        using b r1 pw True pp by (simp add: mc_line_plan_def Let_def)
      then show ?thesis using tr3 by simp
    qed
  qed
  then obtain us where us: "trace (snd (mc_line_plan E fuel t pl w)) = trace w1 @ us"
      "us = [] \<or> us = [PlanLine t pl]"
    by auto
  have "trace (snd (mc_line_plan E fuel t pl w)) = trace w @ bl @ us"
    using us(1) bl(1) by simp
  then show ?thesis using bl(2,3) us(2) by blast
qed

lemma mc_line_soft_check_trace [simp]:
  "trace (mc_line_soft_check E t pl w) = trace w @ [McLine t pl]"
  by (simp add: mc_line_soft_check_def log_event_def Let_def)


text \<open>
  C2. Every call to \<^verbatim>\<open>mc_line\<close>, whether it returns or stays in a wait loop, asks the
  planner for at most one backlash move \<open>bl\<close> and at most one user move \<open>us\<close>, the
  backlash move first. The backlash move is pushed with the planner data
  \<open>pl_backlash pl\<close>, which has the rapid and the backlash flag set. When the new target
  equals the previous target on every axis (the previous target as the function reads it,
  after its realtime check point), no backlash move is pushed. Of the order on the numbers
  the proof uses one fact: no number is less than itself.
\<close>

theorem mc_line_backlash_once:
  fixes target :: "'f::{order,plus,minus,zero} list"
  shows "\<exists>bl us. trace (snd (mc_line E fuel target pl w)) = trace w @ [McLine target pl] @ bl @ us
           \<and> (bl = [] \<or> (\<exists>tp. bl = [PlanLine tp (pl_backlash pl)]))
           \<and> rapid_motion (pl_backlash pl) \<and> backlash_motion (pl_backlash pl)
           \<and> (us = [] \<or> us = [PlanLine target pl])
           \<and> ((\<forall>i<N_AXIS E. target ! i = target_prev (mc_line_ready E target pl w) ! i)
                \<longrightarrow> bl = [])"
proof -
  let ?w1 = "mc_line_soft_check E target pl w"
  have flags: "rapid_motion (pl_backlash pl) \<and> backlash_motion (pl_backlash pl)"
    by (simp add: pl_backlash_def)
  show ?thesis
  proof (cases "sys_state ?w1 = STATE_CHECK_MODE")
    case True
    then have "trace (snd (mc_line E fuel target pl w)) = trace w @ [McLine target pl] @ [] @ []"
      by (simp add: mc_line_def Let_def)
    then show ?thesis using flags by blast
  next
    case False
    obtain ok w2 where rt: "protocol_execute_realtime E ?w1 = (ok, w2)"
      by (cases "protocol_execute_realtime E ?w1")
    have w2: "w2 = mc_line_ready E target pl w" using rt by (simp add: mc_line_ready_def)
    have tr2: "trace w2 = trace w @ [McLine target pl]"
      using execute_realtime_ok [OF rt] by simp
    show ?thesis
    proof (cases ok)
      case False
      then have "trace (snd (mc_line E fuel target pl w)) = trace w @ [McLine target pl] @ [] @ []"
        using \<open>sys_state ?w1 \<noteq> STATE_CHECK_MODE\<close> rt tr2 by (simp add: mc_line_def Let_def)
      then show ?thesis using flags by blast
    next
      case True
      then have eq: "mc_line E fuel target pl w = mc_line_plan E fuel target pl w2"
        using \<open>sys_state ?w1 \<noteq> STATE_CHECK_MODE\<close> rt by (simp add: mc_line_def Let_def)
      obtain bl us where p: "trace (snd (mc_line_plan E fuel target pl w2)) = trace w2 @ bl @ us"
        "bl = [] \<or> (\<exists>tp. bl = [PlanLine tp (pl_backlash pl)])"
        "us = [] \<or> us = [PlanLine target pl]"
        "(\<forall>i<N_AXIS E. \<not> target_prev w2 ! i < target ! i \<and> \<not> target ! i < target_prev w2 ! i)
                \<longrightarrow> bl = []"
        using mc_line_plan_trace [of E fuel target pl w2] by blast
      have "(\<forall>i<N_AXIS E. target ! i = target_prev (mc_line_ready E target pl w) ! i) \<longrightarrow> bl = []"
        using p(4) w2 by simp
      moreover have "trace (snd (mc_line E fuel target pl w)) = trace w @ [McLine target pl] @ bl @ us"
        using eq p(1) tr2 by simp
      ultimately show ?thesis using p(2,3) flags by blast
    qed
  qed
qed



theorem mc_line_backlash_once_witness:
  "target_prev (mc_line_ready bench_env [0, 0, 0] pl_zero bench_world) = [0, 0, 0]
   \<and> trace (snd (mc_line bench_env 0 [0, 0, 0] pl_zero bench_world))
       = [McLine [0, 0, 0] pl_zero, PlanLine [0, 0, 0] pl_zero]"
proof -
  have rd: "mc_line_ready bench_env [0, 0, 0] pl_zero bench_world
      = bench_world\<lparr>trace := [McLine [0, 0, 0] pl_zero]\<rparr>"
    by (simp add: mc_line_ready_def protocol_execute_realtime_def mc_line_soft_check_def
        framed_def log_event_def bench_env_def bench_world_def bench_settings_def pl_zero_def
        Let_def)
  have tp: "target_prev (mc_line_ready bench_env [0, 0, 0] pl_zero bench_world) = [0, 0, 0]"
    by (simp add: rd) (simp add: bench_world_def)
  have hyp: "\<forall>i<N_AXIS bench_env.
      [0, 0, 0] ! i = target_prev (mc_line_ready bench_env [0, 0, 0] pl_zero bench_world) ! i"
    by (simp add: tp)
  have tr: "trace bench_world = []"
    by (simp add: bench_world_def)
  from mc_line_backlash_once [of bench_env 0 "[0, 0, 0]" pl_zero bench_world] hyp
  obtain us where
    t: "trace (snd (mc_line bench_env 0 [0, 0, 0] pl_zero bench_world))
          = trace bench_world @ [McLine [0, 0, 0] pl_zero] @ [] @ us"
    and us: "us = [] \<or> us = [PlanLine [0, 0, 0] pl_zero]"
    by blast
  have ok: "fst (protocol_execute_realtime bench_env
       (mc_line_soft_check bench_env [0, 0, 0] pl_zero bench_world))"
    by (simp add: protocol_execute_realtime_def mc_line_soft_check_def framed_def
        log_event_def bench_env_def bench_world_def bench_settings_def pl_zero_def Let_def
        ABORTED_def)
  have "PlanLine [0, 0, 0] pl_zero
      \<in> set (trace (snd (mc_line bench_env 0 [0, 0, 0] pl_zero bench_world)))"
    using ok
    by (simp add: mc_line_def mc_line_plan_def mc_line_backlash_def backlash_scan_def
        backlash_axis_def plan_push_def mc_line_soft_check_def protocol_execute_realtime_def
        framed_def log_event_def bench_env_def bench_world_def bench_settings_def
        pl_zero_def memcpy_axes_def Let_def ABORTED_def backlash_loop_numeral)
  with t tr us have "us = [PlanLine [0, 0, 0] pl_zero]" by auto
  with t tr tp show ?thesis by simp
qed

text \<open>
  Scenario S3 of the spec on the bench: X was last moved in the negative direction, so a
  move to X = 5 is preceded by one rapid backlash move to the previous target shifted by
  the configured backlash.
\<close>

lemma mc_line_backlash_example:
  "trace (snd (mc_line bench_env 0 [5, 0, 0] pl_zero bench_world))
     = [McLine [5, 0, 0] pl_zero, PlanLine [1/10, 0, 0] (pl_backlash pl_zero),
        PlanLine [5, 0, 0] pl_zero]"
  by (simp add: mc_line_def mc_line_plan_def mc_line_backlash_def backlash_scan_def
      backlash_axis_def plan_push_def mc_line_soft_check_def protocol_execute_realtime_def
      framed_def log_event_def bench_env_def bench_world_def bench_settings_def
      pl_zero_def memcpy_axes_def Let_def ABORTED_def backlash_loop_numeral)

section \<open>Properties of the arc decomposer\<close>

lemma is_mc_line_plan [simp]: "\<not> is_mc_line (PlanLine t p)"
  by simp

lemma mc_line_filter:
  fixes t :: "'f::{ord,plus,minus,zero} list"
  assumes P: "\<And>t p. \<not> P (PlanLine t p)"
  shows "filter P (trace (snd (mc_line E fuel t pl w)))
           = filter P (trace w) @ filter P [McLine t pl]"
proof -
  let ?w1 = "mc_line_soft_check E t pl w"
  show ?thesis
  proof (cases "sys_state ?w1 = STATE_CHECK_MODE")
    case True
    then show ?thesis by (simp add: mc_line_def Let_def)
  next
    case False
    obtain ok w2 where rt: "protocol_execute_realtime E ?w1 = (ok, w2)"
      by (cases "protocol_execute_realtime E ?w1")
    have tr2: "trace w2 = trace w @ [McLine t pl]"
      using execute_realtime_ok [OF rt] by simp
    show ?thesis
    proof (cases ok)
      case False
      then show ?thesis
        using \<open>sys_state ?w1 \<noteq> STATE_CHECK_MODE\<close> rt tr2 by (simp add: mc_line_def Let_def)
    next
      case True
      then have eq: "mc_line E fuel t pl w = mc_line_plan E fuel t pl w2"
        using \<open>sys_state ?w1 \<noteq> STATE_CHECK_MODE\<close> rt by (simp add: mc_line_def Let_def)
      obtain bl us where p: "trace (snd (mc_line_plan E fuel t pl w2)) = trace w2 @ bl @ us"
        "bl = [] \<or> (\<exists>tp. bl = [PlanLine tp (pl_backlash pl)])"
        "us = [] \<or> us = [PlanLine t pl]"
        using mc_line_plan_trace [of E fuel t pl w2] by blast
      have "filter P bl = []" using p(2) P by auto
      moreover have "filter P us = []" using p(3) P by auto
      ultimately show ?thesis using eq p(1) tr2 by simp
    qed
  qed
qed

lemma mc_line_calls:
  fixes t :: "'f::{ord,plus,minus,zero} list"
  shows "mc_lines (snd (mc_line E fuel t pl w)) = mc_lines w @ [McLine t pl]"
  unfolding mc_lines_def by (subst mc_line_filter) simp_all

lemma mc_line_backlash_false_aborted:
  fixes t :: "'f::{ord,plus,minus,zero} list"
  assumes "mc_line_backlash E fuel t pl w = (Returns False, w')"
  shows "ABORTED w'"
proof (cases "backlash_enabled w = 0")
  case True
  with assms show ?thesis by (simp add: mc_line_backlash_def)
next
  case en: False
  obtain comp w1 where lp: "backlash_scan (N_AXIS E) t w = (comp, w1)"
    by (cases "backlash_scan (N_AXIS E) t w")
  show ?thesis
  proof (cases comp)
    case False
    with assms en lp show ?thesis by (simp add: mc_line_backlash_def)
  next
    case True
    obtain r w2 where pw: "plan_wait E fuel w1 = (r, w2)"
      by (cases "plan_wait E fuel w1")
    have "r = Returns False \<and> w' = w2"
      using assms en lp True pw
      by (cases r) (auto simp: mc_line_backlash_def split: bool.splits)
    with pw show ?thesis using plan_wait_false_aborted by blast
  qed
qed

lemma mc_line_plan_false_aborted:
  fixes t :: "'f::{ord,plus,minus,zero} list"
  assumes "mc_line_plan E fuel t pl w = (Returns False, w')"
  shows "ABORTED w'"
proof -
  obtain r1 w1 where b: "mc_line_backlash E fuel t pl w = (r1, w1)"
    by (cases "mc_line_backlash E fuel t pl w")
  show ?thesis
  proof (cases "r1 = Returns True")
    case False
    then have "mc_line_plan E fuel t pl w = (r1, w1)"
      using b by (cases r1) (auto simp: mc_line_plan_def split: bool.splits)
    with assms b show ?thesis using mc_line_backlash_false_aborted by fastforce
  next
    case r1: True
    obtain r2 w2 where pw: "plan_wait E fuel w1 = (r2, w2)"
      by (cases "plan_wait E fuel w1")
    show ?thesis
    proof (cases "r2 = Returns True")
      case False
      then have "mc_line_plan E fuel t pl w = (r2, w2)"
        using b r1 pw by (cases r2) (auto simp: mc_line_plan_def split: bool.splits)
      with assms pw show ?thesis using plan_wait_false_aborted by fastforce
    next
      case True
      with assms b r1 pw show ?thesis
        by (auto simp: mc_line_plan_def Let_def split: prod.splits if_splits)
    qed
  qed
qed

lemma mc_line_false_aborted:
  fixes t :: "'f::{ord,plus,minus,zero} list"
  assumes "mc_line E fuel t pl w = (Returns False, w')"
  shows "ABORTED w'"
proof -
  let ?w1 = "mc_line_soft_check E t pl w"
  show ?thesis
  proof (cases "sys_state ?w1 = STATE_CHECK_MODE")
    case True
    with assms show ?thesis by (auto simp: mc_line_def Let_def)
  next
    case False
    obtain ok w2 where rt: "protocol_execute_realtime E ?w1 = (ok, w2)"
      by (cases "protocol_execute_realtime E ?w1")
    show ?thesis
    proof (cases ok)
      case False
      with assms \<open>sys_state ?w1 \<noteq> STATE_CHECK_MODE\<close> rt show ?thesis
        by (auto simp: mc_line_def Let_def)
    next
      case True
      with assms \<open>sys_state ?w1 \<noteq> STATE_CHECK_MODE\<close> rt
      have "mc_line_plan E fuel t pl w2 = (Returns False, w')"
        by (simp add: mc_line_def Let_def)
      then show ?thesis by (rule mc_line_plan_false_aborted)
    qed
  qed
qed

lemma arc_loop_calls:
  fixes E :: "('f::{plus,minus,times,uminus,ord,zero}, 'x) env"
  assumes "arc_loop E F fuel K pl k (Suc n) (arc_state F (N_ARC_CORRECTION E) K v0 n) w = (r, w')"
  shows "(\<forall>v'. r = Returns (True, v') \<longrightarrow>
            v' = arc_state F (N_ARC_CORRECTION E) K v0 (n + k)
            \<and> mc_lines w' = mc_lines w @
                 map (\<lambda>j. McLine (arc_position (arc_state F (N_ARC_CORRECTION E) K v0 j)) pl)
                   [Suc n ..< Suc (n + k)])
         \<and> (\<forall>v'. r = Returns (False, v') \<longrightarrow> ABORTED w')"
  using assms
proof (induction k arbitrary: n w)
  case 0
  then show ?case by auto
next
  case (Suc k)
  let ?v = "arc_state F (N_ARC_CORRECTION E) K v0 (Suc n)"
  obtain r1 w1 where l: "mc_line E fuel (arc_position ?v) pl w = (r1, w1)"
    by (cases "mc_line E fuel (arc_position ?v) pl w")
  have c1: "mc_lines w1 = mc_lines w @ [McLine (arc_position ?v) pl]"
  proof -
    have "mc_lines (snd (mc_line E fuel (arc_position ?v) pl w))
        = mc_lines w @ [McLine (arc_position ?v) pl]"
      by (rule mc_line_calls)
    then show ?thesis by (simp only: l snd_conv)
  qed
  show ?case
  proof (cases r1)
    case Hangs
    with Suc.prems l show ?thesis by (auto simp: Let_def)
  next
    case (Returns b)
    show ?thesis
    proof (cases b)
      case False
      with Suc.prems l Returns have "r = Returns (False, ?v)" "w' = w1" by (auto simp: Let_def)
      moreover have "ABORTED w1"
      proof -
        have "mc_line E fuel (arc_position ?v) pl w = (Returns False, w1)"
          using l Returns False by (simp only:)
        then show ?thesis by (rule mc_line_false_aborted)
      qed
      ultimately show ?thesis by simp
    next
      case True
      with Suc.prems l Returns
      have rec: "arc_loop E F fuel K pl k (Suc (Suc n)) ?v w1 = (r, w')"
        by (simp add: Let_def)
      have up: "[Suc n ..< Suc (n + Suc k)] = Suc n # [Suc (Suc n) ..< Suc (Suc n + k)]"
        by (simp add: upt_conv_Cons)
      from Suc.IH [OF rec] show ?thesis
        using c1 up by simp
    qed
  qed
qed


lemma arc_advance_fields [simp]:
  "arc_count (arc_advance K v) = arc_count v"
  "r_axis0 (arc_advance K v) = r_axis0 v"
  "r_axis1 (arc_advance K v) = r_axis1 v"
  by (simp_all add: arc_advance_def Let_def)

lemma arc_state_count:
  assumes "arc_count v = 0"
  shows "arc_count (arc_state F N K v n) = n mod Suc N"
proof (induction n)
  case 0
  show ?case using assms by simp
next
  case (Suc n)
  show ?case
  proof (cases "n mod Suc N < N")
    case True
    then show ?thesis using Suc.IH
      by (simp add: arc_step_def arc_rotate_def Let_def mod_Suc)
  next
    case False
    moreover have "n mod Suc N < Suc N" by simp
    ultimately have "n mod Suc N = N" by linarith
    then show ?thesis using Suc.IH
      by (simp add: arc_step_def arc_correct_def Let_def mod_Suc)
  qed
qed

lemma arc_state_step:
  assumes "arc_count v = 0"
  shows "arc_state F N K v (Suc n) =
     arc_advance K (if Suc n mod Suc N = 0 then arc_correct F K (Suc n) (arc_state F N K v n)
                    else arc_rotate K (arc_state F N K v n))"
proof -
  have c: "arc_count (arc_state F N K v n) = n mod Suc N"
    using assms by (rule arc_state_count)
  have "n mod Suc N \<le> N"
    by (metis less_Suc_eq_le mod_less_divisor zero_less_Suc)
  have "(n mod Suc N < N) = (Suc n mod Suc N \<noteq> 0)"
  proof (cases "n mod Suc N = N")
    case True
    then show ?thesis by (simp add: mod_Suc)
  next
    case False
    with \<open>n mod Suc N \<le> N\<close> have "n mod Suc N < N" by linarith
    with False show ?thesis by (simp add: mod_Suc)
  qed
  then show ?thesis using c by (simp add: arc_step_def)
qed

lemma mc_arc_calls:
  fixes E :: "('f::{plus,minus,times,uminus,inverse,ord,zero}, 'x) env"
  assumes run: "mc_arc E F fuel target pl position offset radius plane cw w = (Returns r, w')"
    and na: "\<not> ABORTED w'"
  shows "mc_lines w' = mc_lines w @
     map (\<lambda>j. McLine (arc_position (arc_state F (N_ARC_CORRECTION E)
              (arc_prepare F (arc_tolerance (settings w)) target position offset radius plane cw)
              (arc_start position offset plane) j))
            (arc_pl_data F (segments (arc_prepare F (arc_tolerance (settings w)) target position
               offset radius plane cw)) pl))
       [1 ..< unat (segments (arc_prepare F (arc_tolerance (settings w)) target position offset
                radius plane cw))]
     @ [McLine target (arc_pl_data F (segments (arc_prepare F (arc_tolerance (settings w)) target
           position offset radius plane cw)) pl)]"
proof -
  define K where "K = arc_prepare F (arc_tolerance (settings w)) target position offset radius plane cw"
  define pl1 where "pl1 = arc_pl_data F (segments K) pl"
  define v0 where "v0 = arc_start position offset plane"
  define N where "N = N_ARC_CORRECTION E"
  have eq: "mc_arc E F fuel target pl position offset radius plane cw w =
     (case (if segments K \<noteq> 0
               then arc_loop E F fuel K pl1 (unat (segments K) - 1) 1 v0 w
               else (Returns (True, v0), w)) of
           (Returns (True, v), w') \<Rightarrow>
             (case mc_line E fuel target pl1 w' of
                (Returns ok, w'') \<Rightarrow> (Returns (pl1, arc_position v), w'')
              | (Hangs, w'') \<Rightarrow> (Hangs, w''))
         | (Returns (False, v), w') \<Rightarrow> (Returns (pl1, arc_position v), w')
         | (Hangs, w') \<Rightarrow> (Hangs, w'))"
    unfolding mc_arc_def K_def pl1_def v0_def by (simp add: Let_def)
  have goal: "mc_lines w' = mc_lines w @
      map (\<lambda>j. McLine (arc_position (arc_state F N K v0 j)) pl1) [1 ..< unat (segments K)]
      @ [McLine target pl1]"
  proof (cases "segments K = 0")
    case True
    obtain r2 w2 where fin: "mc_line E fuel target pl1 w = (r2, w2)"
      by (cases "mc_line E fuel target pl1 w")
    have "w' = w2"
      using run True fin unfolding eq by (cases r2) auto
    moreover have "mc_lines (snd (mc_line E fuel target pl1 w)) = mc_lines w @ [McLine target pl1]"
      by (rule mc_line_calls)
    ultimately show ?thesis using True fin by simp
  next
    case nz: False
    then have pos: "1 \<le> unat (segments K)"
      by (simp add: unat_gt_0 Suc_leI)
    obtain r1 w1 where lp: "arc_loop E F fuel K pl1 (unat (segments K) - 1) (Suc 0)
        (arc_state F N K v0 0) w = (r1, w1)"
      by (cases "arc_loop E F fuel K pl1 (unat (segments K) - 1) (Suc 0) (arc_state F N K v0 0) w")
    note calls = arc_loop_calls [OF lp [unfolded N_def], folded N_def]
    have lp': "arc_loop E F fuel K pl1 (unat (segments K) - 1) 1 v0 w = (r1, w1)"
      using lp by simp
    show ?thesis
    proof (cases r1)
      case Hangs
      then show ?thesis
        using run nz lp' unfolding eq by simp
    next
      case (Returns bv)
      obtain b v where bv: "bv = (b, v)" by (cases bv)
      show ?thesis
      proof (cases b)
        case False
        then have "w' = w1"
          using run nz lp' Returns bv unfolding eq by simp
        moreover have "ABORTED w1" using calls Returns bv False by simp
        ultimately show ?thesis using na by simp
      next
        case True
        obtain r2 w2 where fin: "mc_line E fuel target pl1 w1 = (r2, w2)"
          by (cases "mc_line E fuel target pl1 w1")
        have "w' = w2"
          using run nz lp' Returns bv True fin unfolding eq by (cases r2) auto
        moreover have "mc_lines (snd (mc_line E fuel target pl1 w1)) = mc_lines w1 @ [McLine target pl1]"
          by (rule mc_line_calls)
        moreover have "mc_lines w1 = mc_lines w @
            map (\<lambda>j. McLine (arc_position (arc_state F N K v0 j)) pl1) [1 ..< unat (segments K)]"
          using calls Returns bv True pos by simp
        ultimately show ?thesis using fin by simp
      qed
    qed
  qed
  show ?thesis
    using goal unfolding K_def pl1_def v0_def N_def by simp
qed



lemmas bench_defs = bench_env_def bench_world_def bench_settings_def bench_fpu_def plane_xy_def
  plain_world_def pl_zero_def of_rat_divide

lemmas line_defs = mc_line_def mc_line_plan_def mc_line_backlash_def backlash_scan_def
  backlash_axis_def plan_push_def mc_line_soft_check_def protocol_execute_realtime_def
  framed_def log_event_def memcpy_axes_def Let_def ABORTED_def backlash_loop_numeral

lemmas arc_defs = mc_arc_def arc_prepare_def arc_segments_def arc_angular_travel_def
  arc_pl_data_def arc_start_def arc_step_def arc_rotate_def arc_correct_def arc_advance_def

lemma arc_loop_numeral:
  "arc_loop E F fuel K pl_data (numeral k) i v w =
     (let v' = arc_step F (N_ARC_CORRECTION E) K i v in
      case mc_line E fuel (arc_position v') pl_data w of
        (Returns True, w') \<Rightarrow> arc_loop E F fuel K pl_data (pred_numeral k) (Suc i) v' w'
      | (Returns False, w') \<Rightarrow> (Returns (False, v'), w')
      | (Hangs, w') \<Rightarrow> (Hangs, w'))"
  by (simp add: numeral_eq_Suc)

lemma bench_quarter_arc:
  "mc_arc bench_env bench_fpu 0 [0, 1, 0] pl_zero [1, 0, 0] [-1, 0, 0] 1 plane_xy False plain_world
   = (Returns (pl_zero, [678702485840877640631 / 1372257936000000000000,
                          14091183615157 / 16336404000000, 0]),
      plain_world\<lparr>trace :=
        [McLine [761 / 882, 18516667037 / 37044000000, 0] pl_zero,
         PlanLine [761 / 882, 18516667037 / 37044000000, 0] pl_zero,
         McLine [678702485840877640631 / 1372257936000000000000,
                 14091183615157 / 16336404000000, 0] pl_zero,
         PlanLine [678702485840877640631 / 1372257936000000000000,
                   14091183615157 / 16336404000000, 0] pl_zero,
         McLine [0, 1, 0] pl_zero, PlanLine [0, 1, 0] pl_zero]\<rparr>)"
  by (simp add: arc_defs line_defs bench_defs arc_loop_numeral)


lemma bench_short_arc:
  "mc_arc bench_env bench_fpu 0 [0, 1/10, 0] pl_zero [1/10, 0, 0] [-1/10, 0, 0] (1/10) plane_xy
     False plain_world
   = (Returns (pl_zero, [1/10, 0, 0]),
      plain_world\<lparr>trace := [McLine [0, 1/10, 0] pl_zero, PlanLine [0, 1/10, 0] pl_zero]\<rparr>)"
  by (simp add: arc_defs line_defs bench_defs)


lemma plain_world_clear: "\<not> ABORTED (plain_world\<lparr>trace := tr\<rparr>)" "mc_lines plain_world = []"
  by (simp_all add: ABORTED_def plain_world_def bench_world_def mc_lines_def)




lemma arc_start_count [simp]: "arc_count (arc_start position offset plane) = 0"
  by (simp add: arc_start_def)

text \<open>
  C5 (as amended). With \<open>\<theta>\<close> the angle per segment, \<^verbatim>\<open>mc_arc\<close> rotates with
  \<open>cos_T = (2 - \<theta>\<^sup>2) \<cdot> 0.5\<close> and \<open>sin_T = \<theta> \<cdot> 0.16666667 \<cdot> ((2 - \<theta>\<^sup>2) + 4)\<close>, the
  term \<open>2 - \<theta>\<^sup>2\<close> being the cosine before it is halved. The loop variables \<open>s n\<close> after
  \<open>n\<close> rounds satisfy: round \<open>n + 1\<close> rotates the radius vector of \<open>s n\<close> by
  \<open>(cos_T, sin_T)\<close>, unless \<open>n + 1\<close> is a multiple of \<open>N_ARC_CORRECTION + 1\<close>, in which
  case the radius vector is computed anew from the initial offset with \<open>cosf\<close> and
  \<open>sinf\<close> of \<open>(n + 1) \<cdot> \<theta>\<close>. The points \<open>arc_position (s j)\<close> for \<open>j\<close> from 1 below the
  segment count are the intermediate targets passed to \<^verbatim>\<open>mc_line\<close>, in this order, when
  the arc runs to its end.
\<close>

theorem mc_arc_radius_vector:
  fixes E :: "('f::{plus,minus,times,uminus,inverse,ord,zero}, 'x) env"
    and F :: "'f fpu" and w :: "('f, 'x) world" and fuel :: nat
    and target position offset :: "'f list" and pl :: "'f plan_line_data"
    and radius :: 'f and plane :: plane_t and cw :: bool
  defines "K \<equiv> arc_prepare F (arc_tolerance (settings w)) target position offset radius plane cw"
  defines "\<theta> \<equiv> theta_per_segment K"
  defines "s \<equiv> arc_state F (N_ARC_CORRECTION E) K (arc_start position offset plane)"
  defines "res \<equiv> mc_arc E F fuel target pl position offset radius plane cw w"
  shows "cos_T K = (lit F 2 - \<theta> * \<theta>) * lit F (1/2)
       \<and> sin_T K = \<theta> * lit F (16666667/100000000) * ((lit F 2 - \<theta> * \<theta>) + lit F 4)
       \<and> s (Suc n) = arc_advance K
            (if Suc n mod Suc (N_ARC_CORRECTION E) = 0 then arc_correct F K (Suc n) (s n)
             else arc_rotate K (s n))
       \<and> r_axis0 (arc_rotate K v) = r_axis0 v * cos_T K - r_axis1 v * sin_T K
       \<and> r_axis1 (arc_rotate K v) = r_axis0 v * sin_T K + r_axis1 v * cos_T K
       \<and> r_axis0 (arc_correct F K i v)
           = - (offset ! axis_0 plane) * cosf F (of_uint F i * \<theta>)
             + offset ! axis_1 plane * sinf F (of_uint F i * \<theta>)
       \<and> r_axis1 (arc_correct F K i v)
           = - (offset ! axis_0 plane) * sinf F (of_uint F i * \<theta>)
             - offset ! axis_1 plane * cosf F (of_uint F i * \<theta>)
       \<and> (fst res \<noteq> Hangs \<and> \<not> ABORTED (snd res) \<longrightarrow>
            mc_lines (snd res) = mc_lines w
              @ map (\<lambda>j. McLine (arc_position (s j)) (arc_pl_data F (segments K) pl))
                  [1 ..< unat (segments K)]
              @ [McLine target (arc_pl_data F (segments K) pl)])"
proof -
  have kc: "cos_T K = (lit F 2 - \<theta> * \<theta>) * lit F (1/2)"
    "sin_T K = \<theta> * lit F (16666667/100000000) * ((lit F 2 - \<theta> * \<theta>) + lit F 4)"
    "arc_offset K = offset" "arc_plane K = plane"
    by (simp_all add: K_def \<theta>_def arc_prepare_def Let_def)
  have step: "s (Suc n) = arc_advance K
      (if Suc n mod Suc (N_ARC_CORRECTION E) = 0 then arc_correct F K (Suc n) (s n)
       else arc_rotate K (s n))"
    unfolding s_def by (rule arc_state_step) simp
  have rot: "r_axis0 (arc_rotate K v) = r_axis0 v * cos_T K - r_axis1 v * sin_T K"
    "r_axis1 (arc_rotate K v) = r_axis0 v * sin_T K + r_axis1 v * cos_T K"
    by (simp_all add: arc_rotate_def Let_def)
  have cor: "r_axis0 (arc_correct F K i v)
        = - (offset ! axis_0 plane) * cosf F (of_uint F i * \<theta>)
          + offset ! axis_1 plane * sinf F (of_uint F i * \<theta>)"
    "r_axis1 (arc_correct F K i v)
        = - (offset ! axis_0 plane) * sinf F (of_uint F i * \<theta>)
          - offset ! axis_1 plane * cosf F (of_uint F i * \<theta>)"
    by (simp_all add: arc_correct_def Let_def kc(3,4) \<theta>_def)
  have calls: "fst res \<noteq> Hangs \<and> \<not> ABORTED (snd res) \<longrightarrow>
      mc_lines (snd res) = mc_lines w
        @ map (\<lambda>j. McLine (arc_position (s j)) (arc_pl_data F (segments K) pl))
            [1 ..< unat (segments K)]
        @ [McLine target (arc_pl_data F (segments K) pl)]"
  proof
    assume h: "fst res \<noteq> Hangs \<and> \<not> ABORTED (snd res)"
    obtain r w' where run: "mc_arc E F fuel target pl position offset radius plane cw w = (r, w')"
      by (cases "mc_arc E F fuel target pl position offset radius plane cw w")
    from h run obtain x where r: "r = Returns x" unfolding res_def by (cases r) auto
    from h run have na: "\<not> ABORTED w'" unfolding res_def by simp
    show "mc_lines (snd res) = mc_lines w
        @ map (\<lambda>j. McLine (arc_position (s j)) (arc_pl_data F (segments K) pl))
            [1 ..< unat (segments K)]
        @ [McLine target (arc_pl_data F (segments K) pl)]"
      using mc_arc_calls [OF run [unfolded r] na] unfolding res_def run K_def s_def by simp
  qed
  show ?thesis using kc(1,2) step rot cor calls by blast
qed

lemma s2_segments: "unat (segments s2_arc) = 39"
  by (simp add: s2_arc_def arc_prepare_def arc_segments_def arc_angular_travel_def
      bench_fpu_def bench_settings_def plane_xy_def Let_def of_rat_divide)

text \<open>
  The claim C5 as it was stated has every \<open>N_ARC_CORRECTION\<close>-th segment computed anew.
  On the arc of scenario S2 (39 segments on the bench) with \<open>N_ARC_CORRECTION = 12\<close>,
  segment 12 is a rotation of segment 11 and differs from the arc correction (which would
  clear the counter); the first arc correction is segment 13.
\<close>

theorem mc_arc_radius_vector_counterexample:
  "N_ARC_CORRECTION bench_env = 12
   \<and> unat (segments s2_arc) = 39
   \<and> arc_state bench_fpu 12 s2_arc s2_start 12
       = arc_advance s2_arc (arc_rotate s2_arc (arc_state bench_fpu 12 s2_arc s2_start 11))
   \<and> arc_state bench_fpu 12 s2_arc s2_start 12
       \<noteq> arc_advance s2_arc (arc_correct bench_fpu s2_arc 12
            (arc_state bench_fpu 12 s2_arc s2_start 11))
   \<and> arc_state bench_fpu 12 s2_arc s2_start 13
       = arc_advance s2_arc (arc_correct bench_fpu s2_arc 13
            (arc_state bench_fpu 12 s2_arc s2_start 12))"
proof -
  have c0: "arc_count s2_start = 0" by (simp add: s2_start_def)
  have s12: "arc_state bench_fpu 12 s2_arc s2_start (Suc 11)
       = arc_advance s2_arc (arc_rotate s2_arc (arc_state bench_fpu 12 s2_arc s2_start 11))"
    by (simp only: arc_state_step [OF c0]) simp
  have s13: "arc_state bench_fpu 12 s2_arc s2_start (Suc 12)
       = arc_advance s2_arc (arc_correct bench_fpu s2_arc (Suc 12)
            (arc_state bench_fpu 12 s2_arc s2_start 12))"
    by (simp only: arc_state_step [OF c0]) simp
  have cnt: "arc_count (arc_state bench_fpu 12 s2_arc s2_start 12) = 12"
    by (simp add: arc_state_count [OF c0])
  have "arc_count (arc_advance s2_arc (arc_correct bench_fpu s2_arc 12
            (arc_state bench_fpu 12 s2_arc s2_start 11))) = 0"
    by (simp add: arc_correct_def Let_def)
  with cnt have ne: "arc_state bench_fpu 12 s2_arc s2_start 12
       \<noteq> arc_advance s2_arc (arc_correct bench_fpu s2_arc 12
            (arc_state bench_fpu 12 s2_arc s2_start 11))"
    by auto
  have n: "N_ARC_CORRECTION bench_env = 12" by (simp add: bench_env_def)
  have e12: "Suc 11 = 12" and e13: "Suc 12 = 13" by simp_all
  show ?thesis using n s2_segments s12 s13 ne unfolding e12 e13 by blast
qed

theorem mc_arc_radius_vector_witness:
  "fst (mc_arc bench_env bench_fpu 0 [0, 1, 0] pl_zero [1, 0, 0] [-1, 0, 0] 1 plane_xy False
          plain_world) \<noteq> Hangs
   \<and> \<not> ABORTED (snd (mc_arc bench_env bench_fpu 0 [0, 1, 0] pl_zero [1, 0, 0] [-1, 0, 0] 1
          plane_xy False plain_world))
   \<and> mc_lines (snd (mc_arc bench_env bench_fpu 0 [0, 1, 0] pl_zero [1, 0, 0] [-1, 0, 0] 1
          plane_xy False plain_world))
       = [McLine [761 / 882, 18516667037 / 37044000000, 0] pl_zero,
          McLine [678702485840877640631 / 1372257936000000000000,
                  14091183615157 / 16336404000000, 0] pl_zero,
          McLine [0, 1, 0] pl_zero]"
proof -
  let ?res = "mc_arc bench_env bench_fpu 0 [0, 1, 0] pl_zero [1, 0, 0] [-1, 0, 0] 1 plane_xy
      False plain_world"
  have h: "fst ?res \<noteq> Hangs \<and> \<not> ABORTED (snd ?res)"
    by (simp add: bench_quarter_arc plain_world_clear)
  from mc_arc_radius_vector [where E = bench_env and F = bench_fpu and fuel = 0
      and target = "[0, 1, 0]" and pl = pl_zero and position = "[1, 0, 0]"
      and offset = "[-1, 0, 0]" and radius = 1 and plane = plane_xy and cw = False
      and w = plain_world] h
  have "\<exists>xs. mc_lines (snd ?res) = mc_lines plain_world @ xs @ [McLine [0, 1, 0]
      (arc_pl_data bench_fpu (segments (arc_prepare bench_fpu (arc_tolerance (settings plain_world))
        [0, 1, 0] [1, 0, 0] [-1, 0, 0] 1 plane_xy False)) pl_zero)]"
    by blast
  moreover have "mc_lines (snd ?res)
       = [McLine [761 / 882, 18516667037 / 37044000000, 0] pl_zero,
          McLine [678702485840877640631 / 1372257936000000000000,
                  14091183615157 / 16336404000000, 0] pl_zero,
          McLine [0, 1, 0] pl_zero]"
    by (simp add: bench_quarter_arc mc_lines_def)
  ultimately show ?thesis using h by simp
qed

section \<open>Properties of the threading cycle\<close>

lemma mc_line_call:
  fixes t :: "'f::{ord,plus,minus,zero} list"
  shows "calls (snd (mc_line E fuel t pl w)) = calls w @ [McLine t pl]"
  unfolding calls_def by (subst mc_line_filter) simp_all

lemma buffer_sync_loop_trace [simp]: "trace (snd (buffer_sync_loop E n w)) = trace w"
proof (induction n arbitrary: w)
  case 0
  obtain ok w' where rt: "protocol_execute_realtime E w = (ok, w')"
    by (cases "protocol_execute_realtime E w")
  with execute_realtime_ok [OF rt] show ?case by simp
next
  case (Suc n)
  obtain ok w' where rt: "protocol_execute_realtime E w = (ok, w')"
    by (cases "protocol_execute_realtime E w")
  with execute_realtime_ok [OF rt] Suc.IH [of w'] show ?case by simp
qed


lemma mc_dwell_result: "fst (mc_dwell E fuel s w) \<noteq> Returns False"
proof -
  let ?w = "log_event (Dwell s) w"
  obtain r w' where b: "protocol_buffer_synchronize E fuel ?w = (r, w')"
    by (cases "protocol_buffer_synchronize E fuel ?w")
  show ?thesis using b by (cases r) (simp_all add: mc_dwell_def Let_def)
qed

lemma moves_th_line:
  fixes E :: "('f::{ord,plus,minus,zero}, 'x) env"
  assumes "\<And>v. th_pl (g v) = th_pl v \<and> th_doc (g v) = th_doc v \<and> th_pass (g v) = th_pass v"
  shows "moves (\<lambda>v. th_line E fuel (g v)) 1"
  unfolding moves_def
proof (intro allI impI)
  fix v w r v' w'
  assume a: "th_line E fuel (g v) w = (r, v', w')"
  obtain r1 w1 where l: "mc_line E fuel (th_target (g v)) (th_pl (g v)) w = (r1, w1)"
    by (cases "mc_line E fuel (th_target (g v)) (th_pl (g v)) w")
  from a l have e: "r = r1" "v' = g v" "w' = w1" by (simp_all add: th_line_def)
  have "calls (snd (mc_line E fuel (th_target (g v)) (th_pl (g v)) w))
      = calls w @ [McLine (th_target (g v)) (th_pl (g v))]"
    by (rule mc_line_call)
  then have "calls w' = calls w @ map (\<lambda>t. McLine t (th_pl v)) [th_target (g v)]"
    using l e assms by simp
  then show "th_pl v' = th_pl v \<and> th_doc v' = th_doc v \<and> th_pass v' = th_pass v \<and>
     (\<exists>ts. calls w' = calls w @ map (\<lambda>t. McLine t (th_pl v)) ts
        \<and> (r = Returns True \<longrightarrow> length ts = 1))"
    using e assms by (metis length_Cons list.size(3) One_nat_def)
qed

lemma moves_skip: "moves (\<lambda>v w. (Returns True, v, w)) 0"
  by (simp add: moves_def)




lemma th_edit_fields [simp]:
  "th_pl (th_add a d v) = th_pl v" "th_doc (th_add a d v) = th_doc v" "th_pass (th_add a d v) = th_pass v"
  "th_pl (th_sub a d v) = th_pl v" "th_doc (th_sub a d v) = th_doc v" "th_pass (th_sub a d v) = th_pass v"
  "th_pl (th_set a x v) = th_pl v" "th_doc (th_set a x v) = th_doc v" "th_pass (th_set a x v) = th_pass v"
  by (simp_all add: th_add_def th_sub_def th_set_def)

lemma moves_thread_enter:
  fixes E :: "('f::{ord,plus,minus,times,zero}, 'x) env"
  shows "moves (thread_enter E fuel C) (if end_taper_type (th_thread C) = Taper_None then 1 else 0)"
proof (cases "end_taper_type (th_thread C) = Taper_None")
  case True
  then have "thread_enter E fuel C = (\<lambda>v. th_line E fuel
      (th_add (X_AXIS E) ((peak (th_thread C) + th_doc v) * cut_direction (th_thread C)) v))"
    by (intro ext) (simp add: thread_enter_def)
  moreover have "moves (\<lambda>v. th_line E fuel
      (th_add (X_AXIS E) ((peak (th_thread C) + th_doc v) * cut_direction (th_thread C)) v)) 1"
    by (rule moves_th_line) simp
  ultimately show ?thesis using True by simp
next
  case False
  then have "thread_enter E fuel C = (\<lambda>v w. (Returns True, v, w))"
    by (intro ext) (simp add: thread_enter_def)
  then show ?thesis using False by (simp add: moves_skip)
qed

















section \<open>Properties of reset, homing and parking\<close>

lemma do_st_fields [simp]:
  "trace (do_st E c w) = trace w"
  "sys_rt_exec_state (do_st E c w) = sys_rt_exec_state w"
  "sys_rt_exec_alarm (do_st E c w) = sys_rt_exec_alarm w"
  by (simp_all add: do_st_def split: prod.splits)

lemma do_hal_fields [simp]:
  "sys_rt_exec_state (do_hal E c w) = sys_rt_exec_state w"
  "sys_rt_exec_alarm (do_hal E c w) = sys_rt_exec_alarm w"
  "step_control (do_hal E c w) = step_control w"
  "sys_state (do_hal E c w) = sys_state w"
  by (simp_all add: do_hal_def)

lemma set_flag_fields [simp]:
  "trace (system_set_exec_state_flag f w) = trace w"
  "sys_rt_exec_state (system_set_exec_state_flag f w) = insert f (sys_rt_exec_state w)"
  "sys_rt_exec_alarm (system_set_exec_state_flag f w) = sys_rt_exec_alarm w"
  "step_control (system_set_exec_state_flag f w) = step_control w"
  by (simp_all add: system_set_exec_state_flag_def)

lemma set_alarm_fields [simp]:
  "trace (system_set_exec_alarm a w) = trace w"
  "sys_rt_exec_state (system_set_exec_alarm a w) = sys_rt_exec_state w"
  "sys_rt_exec_alarm (system_set_exec_alarm a w) = sys_rt_exec_alarm w @ [a]"
  by (simp_all add: system_set_exec_alarm_def)

lemma mc_reset_trace [simp]: "trace (mc_reset E w) = trace w"
  by (simp add: mc_reset_def Let_def)

lemma mc_reset_flag: "EXEC_RESET \<in> sys_rt_exec_state (mc_reset E w)"
  by (simp add: mc_reset_def Let_def)

text \<open>
  C9. When two switches share a limit pin and a limit input is active,
  \<^verbatim>\<open>mc_homing_cycle\<close> does what \<^verbatim>\<open>mc_reset\<close> does, posts the hard limit alarm and
  returns \<^verbatim>\<open>Status_Unhandled\<close>: the reset flag is raised, the alarm posted last is the
  hard limit alarm, and the history is as it was, so no axis group was sent home and no
  line was planned.
\<close>

theorem mc_homing_cycle_two_switches:
  assumes "two_switches (settings w)" and "limits_get_state E (ext w) \<noteq> 0"
  shows "fst (mc_homing_cycle E cycle w) = Status_Unhandled
       \<and> snd (mc_homing_cycle E cycle w) = system_set_exec_alarm Alarm_HardLimit (mc_reset E w)
       \<and> EXEC_RESET \<in> sys_rt_exec_state (snd (mc_homing_cycle E cycle w))
       \<and> last (sys_rt_exec_alarm (snd (mc_homing_cycle E cycle w))) = Alarm_HardLimit
       \<and> trace (snd (mc_homing_cycle E cycle w)) = trace w"
proof -
  have eq: "mc_homing_cycle E cycle w
      = (Status_Unhandled, system_set_exec_alarm Alarm_HardLimit (mc_reset E w))"
    using assms by (simp add: mc_homing_cycle_def)
  show ?thesis unfolding eq by (simp add: mc_reset_flag)
qed

theorem mc_homing_cycle_two_switches_witness:
  "two_switches (settings switch_world) \<and> limits_get_state switch_env (ext switch_world) \<noteq> 0
   \<and> mc_homing_cycle switch_env 0 switch_world
       = (Status_Unhandled,
          switch_world\<lparr>sys_rt_exec_state := {EXEC_RESET},
            sys_rt_exec_alarm := [Alarm_HomingFailReset, Alarm_HardLimit]\<rparr>)"
proof -
  have h: "two_switches (settings switch_world)" "limits_get_state switch_env (ext switch_world) \<noteq> 0"
    by (simp_all add: switch_world_def switch_env_def bench_world_def bench_env_def
        bench_settings_def)
  have r: "system_set_exec_alarm Alarm_HardLimit (mc_reset switch_env switch_world)
      = switch_world\<lparr>sys_rt_exec_state := {EXEC_RESET},
            sys_rt_exec_alarm := [Alarm_HomingFailReset, Alarm_HardLimit]\<rparr>"
    by (simp add: mc_reset_def system_set_exec_alarm_def system_set_exec_state_flag_def
        do_hal_def do_st_def switch_world_def switch_env_def bench_world_def bench_env_def
        bench_settings_def Let_def)
  from mc_homing_cycle_two_switches [OF h, of 0] r h show ?thesis
    by (metis prod.collapse)
qed

lemma plan_push_fields:
  "plan_push E t p w = (acc, w1) \<Longrightarrow>
     acc = fst (plan_buffer_line E t p (ext w)) \<and> step_control w1 = step_control w
     \<and> sys_rt_exec_state w1 = sys_rt_exec_state w \<and> trace w1 = trace w @ [PlanLine t p]"
  by (auto simp: plan_push_def log_event_def split: prod.splits)

text \<open>
  C10. \<^verbatim>\<open>mc_parking_motion\<close> returns false and leaves the state as it is (no push
  either) when the abort flag is set. Otherwise it pushes the parking line: when the planner
  rejects it, the call raises \<^verbatim>\<open>EXEC_CYCLE_COMPLETE\<close>, returns false and leaves
  \<^verbatim>\<open>sys.step_control\<close> alone; when the planner accepts it, the call sets
  \<^verbatim>\<open>execute_sys_motion\<close>, clears \<^verbatim>\<open>end_motion\<close>, hands over to the stepper driver
  and returns true. It returns true in no other case.
\<close>

theorem mc_parking_motion_cases:
  "(sys_abort w \<longrightarrow> mc_parking_motion E t pl w = (False, w))
   \<and> (\<not> sys_abort w \<and> \<not> fst (plan_buffer_line E t pl (ext w)) \<longrightarrow>
        \<not> fst (mc_parking_motion E t pl w)
        \<and> EXEC_CYCLE_COMPLETE \<in> sys_rt_exec_state (snd (mc_parking_motion E t pl w))
        \<and> step_control (snd (mc_parking_motion E t pl w)) = step_control w)
   \<and> (\<not> sys_abort w \<and> fst (plan_buffer_line E t pl (ext w)) \<longrightarrow>
        fst (mc_parking_motion E t pl w)
        \<and> snd (mc_parking_motion E t pl w)
            = parking_stepper E (parking_start (snd (plan_push E t pl w)))
        \<and> execute_sys_motion (step_control (parking_start (snd (plan_push E t pl w))))
        \<and> \<not> end_motion (step_control (parking_start (snd (plan_push E t pl w)))))
   \<and> (fst (mc_parking_motion E t pl w)
        = (\<not> sys_abort w \<and> fst (plan_buffer_line E t pl (ext w))))"
proof -
  obtain acc w1 where pp: "plan_push E t pl w = (acc, w1)"
    by (cases "plan_push E t pl w")
  note f = plan_push_fields [OF pp]
  show ?thesis
  proof (cases "sys_abort w")
    case True
    then show ?thesis by (simp add: mc_parking_motion_def)
  next
    case na: False
    show ?thesis
    proof (cases acc)
      case True
      then show ?thesis using na pp f
        by (simp add: mc_parking_motion_def parking_start_def)
    next
      case False
      then show ?thesis using na pp f
        by (simp add: mc_parking_motion_def)
    qed
  qed
qed

theorem mc_parking_motion_cases_witness:
  "sys_abort aborted_check_world
   \<and> \<not> sys_abort bench_world
   \<and> \<not> fst (plan_buffer_line reject_env [0, 0, 5] pl_zero (ext bench_world))
   \<and> fst (plan_buffer_line bench_env [0, 0, 5] pl_zero (ext bench_world))
   \<and> mc_parking_motion bench_env [0, 0, 5] pl_zero aborted_check_world = (False, aborted_check_world)
   \<and> mc_parking_motion reject_env [0, 0, 5] pl_zero bench_world
       = (False, bench_world\<lparr>sys_rt_exec_state := {EXEC_CYCLE_COMPLETE},
                   trace := [PlanLine [0, 0, 5] pl_zero]\<rparr>)
   \<and> mc_parking_motion bench_env [0, 0, 5] pl_zero bench_world
       = (True, bench_world\<lparr>step_control :=
                    \<lparr>execute_hold = False, execute_sys_motion = True, end_motion = False\<rparr>,
                   trace := [PlanLine [0, 0, 5] pl_zero]\<rparr>)"
proof -
  have a: "sys_abort aborted_check_world"
    by (simp add: aborted_check_world_def)
  have b: "\<not> sys_abort bench_world \<and> \<not> fst (plan_buffer_line reject_env [0, 0, 5] pl_zero (ext bench_world))"
    by (simp add: reject_env_def bench_world_def)
  have c: "\<not> sys_abort bench_world \<and> fst (plan_buffer_line bench_env [0, 0, 5] pl_zero (ext bench_world))"
    by (simp add: bench_env_def bench_world_def)
  have 1: "mc_parking_motion bench_env [0, 0, 5] pl_zero aborted_check_world
      = (False, aborted_check_world)"
    using mc_parking_motion_cases [of aborted_check_world bench_env "[0, 0, 5]" pl_zero] a
    by blast
  have 2: "mc_parking_motion reject_env [0, 0, 5] pl_zero bench_world
       = (False, bench_world\<lparr>sys_rt_exec_state := {EXEC_CYCLE_COMPLETE},
                   trace := [PlanLine [0, 0, 5] pl_zero]\<rparr>)"
    by (simp add: mc_parking_motion_def plan_push_def log_event_def
        system_set_exec_state_flag_def reject_env_def bench_env_def bench_world_def)
  have 3: "mc_parking_motion bench_env [0, 0, 5] pl_zero bench_world
       = (True, bench_world\<lparr>step_control :=
                    \<lparr>execute_hold = False, execute_sys_motion = True, end_motion = False\<rparr>,
                   trace := [PlanLine [0, 0, 5] pl_zero]\<rparr>)"
    by (simp add: mc_parking_motion_def plan_push_def log_event_def parking_start_def
        parking_stepper_def do_st_def bench_env_def bench_world_def)
  show ?thesis using a b c 1 2 3 by simp
qed



section \<open>Properties of the realtime command ingest\<close>

lemma char_val_dropped:
  assumes "uint c < 0x20 \<or> (0x7F \<le> uint c \<and> uint c \<le> 0xBF)"
  shows "char_val E c < 0x20 \<or> (char_val E c \<ge> 0x7F \<and> char_val E c \<le> 0xBF)"
proof (cases "char_is_signed E")
  case False
  with assms show ?thesis by (simp add: char_val_def)
next
  case True
  show ?thesis
  proof (cases "sint c < 0")
    case neg: True
    with True show ?thesis by (simp add: char_val_def)
  next
    case False
    moreover have "sint c < 2 ^ (LENGTH(8) - 1)" by (rule sint_lt)
    ultimately have "take_bit LENGTH(8) (sint c) = sint c"
      by (simp add: take_bit_int_eq_self)
    then have "uint c = sint c" using uint_sint [of c] by simp
    with True assms show ?thesis by (simp add: char_val_def)
  qed
qed

lemma rt_first_switch_unassigned:
  assumes "c \<notin> assigned_codes K"
  shows "rt_first_switch E K c w
     = (char_val E c < 0x20 \<or> (char_val E c \<ge> 0x7F \<and> char_val E c \<le> 0xBF), w)"
  using assms by (simp add: rt_first_switch_def assigned_codes_def)

text \<open>
  C8. \<^verbatim>\<open>protocol_enqueue_realtime_command\<close> does not drop a line feed or a carriage
  return and changes nothing for them; a byte below 0x20 or from 0x7F to 0xBF that is not a
  case label of the first \<^verbatim>\<open>switch\<close> is dropped and nothing is changed, so no realtime
  flag is set. This holds whether \<^verbatim>\<open>char\<close> is signed or not.
\<close>

theorem realtime_command_dropped:
  "(c = 0x0A \<or> c = 0x0D \<longrightarrow> protocol_enqueue_realtime_command E K c w = (False, w))
   \<and> ((uint c < 0x20 \<or> (0x7F \<le> uint c \<and> uint c \<le> 0xBF)) \<and> c \<notin> assigned_codes K
        \<longrightarrow> protocol_enqueue_realtime_command E K c w = (True, w))"
proof (intro conjI impI)
  assume "c = 0x0A \<or> c = 0x0D"
  then show "protocol_enqueue_realtime_command E K c w = (False, w)"
    by (auto simp: protocol_enqueue_realtime_command_def rt_first_switch_def
        rt_second_switch_def CMD_STATUS_REPORT_LEGACY_def CMD_CYCLE_START_LEGACY_def
        CMD_FEED_HOLD_LEGACY_def)
next
  assume a: "(uint c < 0x20 \<or> (0x7F \<le> uint c \<and> uint c \<le> 0xBF)) \<and> c \<notin> assigned_codes K"
  then have "rt_first_switch E K c w = (True, w)"
    using char_val_dropped [of c E] by (simp add: rt_first_switch_unassigned)
  then show "protocol_enqueue_realtime_command E K c w = (True, w)"
    by (simp add: protocol_enqueue_realtime_command_def)
qed

theorem realtime_command_dropped_witness:
  "protocol_enqueue_realtime_command bench_env bench_codes 0x0A bench_world = (False, bench_world)
   \<and> uint (0x01 :: 8 word) < 0x20 \<and> (0x01 :: 8 word) \<notin> assigned_codes bench_codes
   \<and> protocol_enqueue_realtime_command bench_env bench_codes 0x01 bench_world = (True, bench_world)
   \<and> 0x7F \<le> uint (0xB0 :: 8 word) \<and> uint (0xB0 :: 8 word) \<le> 0xBF
   \<and> (0xB0 :: 8 word) \<notin> assigned_codes bench_codes
   \<and> protocol_enqueue_realtime_command bench_env bench_codes 0xB0 bench_world = (True, bench_world)"
proof -
  have h1: "uint (0x01 :: 8 word) < 0x20" "(0x01 :: 8 word) \<notin> assigned_codes bench_codes"
    by (simp_all add: assigned_codes_def bench_codes_def)
  have h2: "0x7F \<le> uint (0xB0 :: 8 word)" "uint (0xB0 :: 8 word) \<le> 0xBF"
    "(0xB0 :: 8 word) \<notin> assigned_codes bench_codes"
    by (simp_all add: assigned_codes_def bench_codes_def)
  note t = realtime_command_dropped [of _ bench_env bench_codes bench_world]
  have "protocol_enqueue_realtime_command bench_env bench_codes 0x0A bench_world
      = (False, bench_world)"
    using t [of "0x0A"] by simp
  moreover have "protocol_enqueue_realtime_command bench_env bench_codes 0x01 bench_world
      = (True, bench_world)"
    using t [of "0x01"] h1 by blast
  moreover have "protocol_enqueue_realtime_command bench_env bench_codes 0xB0 bench_world
      = (True, bench_world)"
    using t [of "0xB0"] h2 by blast
  ultimately show ?thesis using h1 h2 by simp
qed

end
